theory Spec2Isabelle
  imports Complex_Main
begin

section \<open>Numbers and points\<close>

text \<open>
  A JavaScript number is modelled by a real (and, where it is read from text, by the
  decimal literal it was read from, see \<open>num\<close> below). The theorems of this
  development compare numbers with decimal constants and count list elements; none of
  them depends on how a double rounds.

  A point of the buffer generator is the array \<open>[lon, lat]\<close> (Mapbox order); a
  center of the buffer agent is the array \<open>[lat, lon]\<close>. Both are pairs here.
\<close>

type_synonym point = "real \<times> real"

section \<open>bufferGenerator.js: generateCircle\<close>

text \<open>
  \<^verbatim>\<open>for (let i = 0; i <= numPoints; i++)\<close> runs over \<open>i = 0, ..., numPoints\<close>; the
  parameter \<open>numPoints\<close> is a count (default 64, the only value the buffer agent passes),
  a natural number here. For \<open>numPoints = 0\<close> the source divides \<open>0 / 0\<close> and pushes one
  point of NaN coordinates, where HOL's division gives \<open>0\<close>: the number of points is the
  same.
\<close>

definition circlePoint :: "real \<Rightarrow> real \<Rightarrow> real \<Rightarrow> real \<Rightarrow> nat \<Rightarrow> nat \<Rightarrow> point" where
  "circlePoint lat lon latOffset lonOffset numPoints i =
     (let angle = (real i / real numPoints) * 2 * pi;
          pointLat = lat + latOffset * sin angle;
          pointLon = lon + lonOffset * cos angle
      in (pointLon, pointLat))"

definition generateCircle :: "real \<times> real \<Rightarrow> real \<Rightarrow> nat \<Rightarrow> point list" where
  "generateCircle center radiusKm numPoints =
     (let lat = fst center; lon = snd center;
          latOffset = radiusKm / 111;
          lonOffset = radiusKm / (111 * cos (lat * pi / 180))
      in map (circlePoint lat lon latOffset lonOffset numPoints) [0 ..< Suc numPoints])"

section \<open>mapDisplay.js: the ring handed to the map source\<close>

text \<open>
  \<open>displayBufferOnMap\<close> returns early on a missing or empty polygon
  (\<^verbatim>\<open>!bufferData.polygon || bufferData.polygon.length === 0\<close>) and otherwise builds
  \<^verbatim>\<open>[...bufferData.polygon, bufferData.polygon[0]]\<close>, the ring of the GeoJSON
  source. \<open>displayMultipleBuffersOnMap\<close> does the same for every buffer of its array,
  skipping the empty ones. \<open>None\<close> is "nothing rendered".
\<close>

record buffer =
  center :: point
  radius :: real
  polygon :: "point list"

definition polygonCoords :: "buffer \<Rightarrow> point list option" where
  "polygonCoords bufferData =
     (case polygon bufferData of
        [] \<Rightarrow> None
      | p # ps \<Rightarrow> Some ((p # ps) @ [p]))"

definition displayBufferOnMap :: "buffer \<Rightarrow> point list option" where
  "displayBufferOnMap bufferData = polygonCoords bufferData"

definition displayMultipleBuffersOnMap :: "buffer list \<Rightarrow> point list list" where
  "displayMultipleBuffersOnMap buffersArray =
     concat (map (\<lambda>b. case polygonCoords b of None \<Rightarrow> [] | Some r \<Rightarrow> [r]) buffersArray)"

text \<open>
  The buffer object the agent builds for one center (step 3 of \<open>extractBuffer\<close>):
  \<^verbatim>\<open>generateCircle([centerLat, centerLon], radiusKm)\<close> takes the default of 64 points.
\<close>

definition makeBuffer :: "real \<times> real \<Rightarrow> real \<Rightarrow> buffer" where
  "makeBuffer c radiusKm =
     \<lparr> center = (snd c, fst c), radius = radiusKm,
       polygon = generateCircle c radiusKm 64 \<rparr>"

section \<open>bufferAgent.js: center validation and clustering\<close>

text \<open>
  The filter of the \<open>centerPairs.forEach\<close> loop. The pairs come from
  \<open>parseCoordinates\<close>, whose keys are renderings of finite numbers, so the
  \<open>isNaN\<close> test of the source never rejects one of them.
\<close>

definition isInvalid :: "real \<Rightarrow> real \<Rightarrow> bool" where
  "isInvalid centerLat centerLon =
     ((centerLat = 0 \<and> centerLon = 0) \<or>
      (centerLat = 1 \<and> centerLon = 0) \<or>
      (\<bar>centerLat\<bar> < 0.1 \<and> \<bar>centerLon\<bar> < 0.1) \<or>
      \<bar>centerLat\<bar> > 85)"

definition validCenters :: "(real \<times> real) list \<Rightarrow> (real \<times> real) list" where
  "validCenters centerPairs = filter (\<lambda>(centerLat, centerLon). \<not> isInvalid centerLat centerLon) centerPairs"

text \<open>
  The clustering block: \<open>used\<close> is the set of indices already in a cluster. The inner
  \<open>forEach\<close> walks all centers again and marks every unused one inside the box; the
  outer one keeps \<open>cluster[0]\<close>, the point that opened the cluster.
\<close>

definition nearby :: "real \<times> real \<Rightarrow> real \<times> real \<Rightarrow> bool" where
  "nearby p q = (\<bar>fst p - fst q\<bar> < 0.5 \<and> \<bar>snd p - snd q\<bar> < 0.5)"

fun absorbNearby :: "real \<times> real \<Rightarrow> (nat \<times> (real \<times> real)) list \<Rightarrow> nat set \<Rightarrow> nat set" where
  "absorbNearby p [] used = used"
| "absorbNearby p ((otherIndex, q) # rest) used =
     (if otherIndex \<in> used then absorbNearby p rest used
      else if nearby p q then absorbNearby p rest (insert otherIndex used)
      else absorbNearby p rest used)"

fun clusterLoop :: "(nat \<times> (real \<times> real)) list \<Rightarrow> (nat \<times> (real \<times> real)) list \<Rightarrow>
    (real \<times> real) list \<times> nat set \<Rightarrow> (real \<times> real) list \<times> nat set" where
  "clusterLoop centers [] st = st"
| "clusterLoop centers ((index, p) # rest) (clusters, used) =
     (if index \<in> used then clusterLoop centers rest (clusters, used)
      else clusterLoop centers rest (clusters @ [p], absorbNearby p centers (insert index used)))"

definition clusterNearbyCenters :: "(real \<times> real) list \<Rightarrow> (real \<times> real) list" where
  "clusterNearbyCenters centers =
     fst (clusterLoop (enumerate 0 centers) (enumerate 0 centers) ([], {}))"

text \<open>
  The gate around the block: \<^verbatim>\<open>if (isMultiple && centers.length > expectedLocations)\<close>.
\<close>

definition dedupCenters :: "bool \<Rightarrow> nat \<Rightarrow> (real \<times> real) list \<Rightarrow> (real \<times> real) list" where
  "dedupCenters isMultiple expectedLocations centers =
     (if isMultiple \<and> length centers > expectedLocations
      then clusterNearbyCenters centers else centers)"

definition bufferCenters :: "bool \<Rightarrow> nat \<Rightarrow> (real \<times> real) list \<Rightarrow> (real \<times> real) list" where
  "bufferCenters isMultiple expectedLocations centerPairs =
     dedupCenters isMultiple expectedLocations (validCenters centerPairs)"

section \<open>Strings\<close>

text \<open>
  A JavaScript string is a sequence of UTF-16 code units; the model has the code units
  below 256 (ASCII and Latin-1, which hold every character of the patterns of the
  source, the degree sign \<open>0xB0\<close> included), one \<open>char\<close> each.
\<close>

definition upperChars :: "char list" where
  "upperChars = ''ABCDEFGHIJKLMNOPQRSTUVWXYZ'' @
     [CHR 0xC0, CHR 0xC1, CHR 0xC2, CHR 0xC3, CHR 0xC4, CHR 0xC5, CHR 0xC6, CHR 0xC7, CHR 0xC8, CHR 0xC9, CHR 0xCA, CHR 0xCB, CHR 0xCC, CHR 0xCD, CHR 0xCE, CHR 0xCF, CHR 0xD0, CHR 0xD1, CHR 0xD2, CHR 0xD3, CHR 0xD4, CHR 0xD5, CHR 0xD6, CHR 0xD8, CHR 0xD9, CHR 0xDA, CHR 0xDB, CHR 0xDC, CHR 0xDD, CHR 0xDE]"

definition lowerChars :: "char list" where
  "lowerChars = ''abcdefghijklmnopqrstuvwxyz'' @
     [CHR 0xE0, CHR 0xE1, CHR 0xE2, CHR 0xE3, CHR 0xE4, CHR 0xE5, CHR 0xE6, CHR 0xE7, CHR 0xE8, CHR 0xE9, CHR 0xEA, CHR 0xEB, CHR 0xEC, CHR 0xED, CHR 0xEE, CHR 0xEF, CHR 0xF0, CHR 0xF1, CHR 0xF2, CHR 0xF3, CHR 0xF4, CHR 0xF5, CHR 0xF6, CHR 0xF8, CHR 0xF9, CHR 0xFA, CHR 0xFB, CHR 0xFC, CHR 0xFD, CHR 0xFE]"

definition toLowerChar :: "char \<Rightarrow> char" where
  "toLowerChar c = (case map_of (zip upperChars lowerChars) c of None \<Rightarrow> c | Some l \<Rightarrow> l)"

definition toUpperAscii :: "char \<Rightarrow> char" where
  "toUpperAscii c =
     (case map_of (zip ''abcdefghijklmnopqrstuvwxyz'' ''ABCDEFGHIJKLMNOPQRSTUVWXYZ'') c of
        None \<Rightarrow> c | Some u \<Rightarrow> u)"

definition toLowerCase :: "string \<Rightarrow> string" where
  "toLowerCase s = map toLowerChar s"

fun startsWith :: "string \<Rightarrow> string \<Rightarrow> bool" where
  "startsWith s [] = True"
| "startsWith [] (c # w) = False"
| "startsWith (d # s) (c # w) = (d = c \<and> startsWith s w)"

fun includesStr :: "string \<Rightarrow> string \<Rightarrow> bool" where
  "includesStr [] w = (w = [])"
| "includesStr (c # s) w = (startsWith (c # s) w \<or> includesStr s w)"

section \<open>Regular expressions\<close>

text \<open>
  The fragment of the regular expressions of the source that the modelled functions use:
  character classes, concatenation, alternation with the left branch first, the greedy
  and the lazy star, capture groups, negative lookahead, the word boundary and the end
  of the text. \<open>matches r st\<close> lists
  every way \<open>r\<close> can match at the state \<open>st\<close>, in the order in which a backtracking
  matcher tries them, so that its head is the match JavaScript reports. A state is the
  code unit before the position (for \<open>\b\<close>), the rest of the text and the captures
  made so far, the latest first. An iteration of a star that consumes nothing is
  rejected, as in the language specification.
\<close>

datatype regex =
    Eps
  | Cls "char list"
  | NCls "char list"
  | Seq regex regex
  | Alt regex regex
  | Star regex
  | LStar regex
  | Grp nat regex
  | NegLook regex
  | WordB
  | Eol

type_synonym mstate = "char option \<times> string \<times> (nat \<times> string) list"

definition wordChars :: "char list" where
  "wordChars = ''abcdefghijklmnopqrstuvwxyzABCDEFGHIJKLMNOPQRSTUVWXYZ0123456789_''"

definition isWordChar :: "char option \<Rightarrow> bool" where
  "isWordChar c = (case c of None \<Rightarrow> False | Some x \<Rightarrow> x \<in> set wordChars)"

fun matches :: "regex \<Rightarrow> mstate \<Rightarrow> mstate list" where
  "matches Eps st = [st]"
| "matches (Cls cs) (p, s, g) =
     (case s of [] \<Rightarrow> [] | c # rest \<Rightarrow> if c \<in> set cs then [(Some c, rest, g)] else [])"
| "matches (NCls cs) (p, s, g) =
     (case s of [] \<Rightarrow> [] | c # rest \<Rightarrow> if c \<notin> set cs then [(Some c, rest, g)] else [])"
| "matches (Seq a b) st = concat (map (matches b) (matches a st))"
| "matches (Alt a b) st = matches a st @ matches b st"
| "matches (Star a) (p, s, g) =
     concat (map (\<lambda>(p', s', g'). if length s' < length s then matches (Star a) (p', s', g') else [])
                 (matches a (p, s, g))) @ [(p, s, g)]"
| "matches (LStar a) (p, s, g) =
     (p, s, g) #
     concat (map (\<lambda>(p', s', g'). if length s' < length s then matches (LStar a) (p', s', g') else [])
                 (matches a (p, s, g)))"
| "matches (Grp n a) (p, s, g) =
     map (\<lambda>(p', s', g'). (p', s', (n, take (length s - length s') s) # g')) (matches a (p, s, g))"
| "matches (NegLook a) st = (if matches a st = [] then [st] else [])"
| "matches WordB (p, s, g) =
     (if isWordChar p \<noteq> isWordChar (case s of [] \<Rightarrow> None | c # _ \<Rightarrow> Some c)
      then [(p, s, g)] else [])"
| "matches Eol (p, s, g) = (if s = [] then [(p, s, g)] else [])"

text \<open>Derived forms: \<open>r+\<close>, \<open>r?\<close>, a sequence, a literal, a literal under the \<open>i\<close> flag.\<close>

definition Plus :: "regex \<Rightarrow> regex" where
  "Plus r = Seq r (Star r)"

definition LPlus :: "regex \<Rightarrow> regex" where
  "LPlus r = Seq r (LStar r)"

definition Opt :: "regex \<Rightarrow> regex" where
  "Opt r = Alt r Eps"

fun seqs :: "regex list \<Rightarrow> regex" where
  "seqs [] = Eps"
| "seqs [r] = r"
| "seqs (r # rs) = Seq r (seqs rs)"

fun alts :: "regex list \<Rightarrow> regex" where
  "alts [] = NCls []"
| "alts [r] = r"
| "alts (r # rs) = Alt r (alts rs)"

definition lit :: "string \<Rightarrow> regex" where
  "lit w = seqs (map (\<lambda>c. Cls [c]) w)"

definition liti :: "string \<Rightarrow> regex" where
  "liti w = seqs (map (\<lambda>c. Cls [toLowerChar c, toUpperAscii c]) w)"

definition digit :: regex where
  "digit = Cls ''0123456789''"

definition space :: regex where
  "space = Cls [CHR '' '', CHR 0x09, CHR 0x0A, CHR 0x0B, CHR 0x0C, CHR 0x0D, CHR 0xA0]"

text \<open>
  \<open>search\<close> is one call of \<open>exec\<close>: the leftmost position at which the pattern
  matches, and the first match there. It returns the text from the start of the match
  and the state after it. \<open>execAll\<close> is the loop
  \<^verbatim>\<open>while ((match = pattern.exec(text)) !== null)\<close> of a pattern with the \<open>g\<close> flag,
  which resumes at the end of the previous match; it yields \<open>match[0]\<close> and the
  captures of every match. A pattern that matched the empty string would keep
  \<open>lastIndex\<close> in place; the patterns of the source consume at least one digit
  (lemma \<open>execAll_progress\<close> below), so the last branch is never taken for them.
\<close>

fun search :: "regex \<Rightarrow> char option \<Rightarrow> string \<Rightarrow> (string \<times> mstate) option" where
  "search r p [] =
     (case matches r (p, [], []) of st # _ \<Rightarrow> Some ([], st) | [] \<Rightarrow> None)"
| "search r p (c # rest) =
     (case matches r (p, c # rest, []) of
        st # _ \<Rightarrow> Some (c # rest, st)
      | [] \<Rightarrow> search r (Some c) rest)"

lemma search_suffix: "search r p s = Some (sfx, st) \<Longrightarrow> length sfx \<le> length s"
  by (induction s arbitrary: p) (auto split: list.splits intro: le_SucI)

function execAll :: "regex \<Rightarrow> char option \<Rightarrow> string \<Rightarrow> (string \<times> (nat \<times> string) list) list" where
  "execAll r p s =
     (case search r p s of
        None \<Rightarrow> []
      | Some (sfx, (p', rest, caps)) \<Rightarrow>
          if length rest < length sfx
          then (take (length sfx - length rest) sfx, caps) # execAll r p' rest
          else [])"
  by pat_completeness auto
termination
  by (relation "measure (\<lambda>(r, p, s). length s)") (auto dest: search_suffix)

declare execAll.simps [simp del]

definition globalMatch :: "regex \<Rightarrow> string \<Rightarrow> (string \<times> (nat \<times> string) list) list" where
  "globalMatch r text = execAll r None text"

definition test :: "regex \<Rightarrow> string \<Rightarrow> bool" where
  "test r text = (search r None text \<noteq> None)"

definition grp :: "nat \<Rightarrow> (string \<times> (nat \<times> string) list) \<Rightarrow> string option" where
  "grp n m = (if n = 0 then Some (fst m) else map_of (snd m) n)"

section \<open>Numbers read from and written to text\<close>

text \<open>
  The numbers the parsers read are decimal literals. \<open>Num m k\<close> is the number
  \<open>m / 10 ^ k\<close>, kept normalised (no trailing zero in the fraction), so that two
  literals of one value are one \<open>num\<close>; negative zero is zero. This is exact for the
  literals a double represents to the digit (up to 15 significant digits); the rounding
  of longer literals is outside the model.
\<close>

datatype num = Num (mant: int) (scale: nat)

definition numVal :: "num \<Rightarrow> real" where
  "numVal x = real_of_int (mant x) / 10 ^ scale x"

definition digitVal :: "char \<Rightarrow> int" where
  "digitVal c = (case map_of (zip ''0123456789'' [0, 1, 2, 3, 4, 5, 6, 7, 8, 9]) c of
                   None \<Rightarrow> 0 | Some d \<Rightarrow> d)"

definition isDigit :: "char \<Rightarrow> bool" where
  "isDigit c = (c \<in> set ''0123456789'')"

definition intOfDigits :: "string \<Rightarrow> int" where
  "intOfDigits ds = foldl (\<lambda>n c. 10 * n + digitVal c) 0 ds"

fun normalise :: "int \<Rightarrow> nat \<Rightarrow> num" where
  "normalise m 0 = Num m 0"
| "normalise m (Suc k) =
     (if m mod 10 = 0 then normalise (m div 10) k else Num m (Suc k))"

text \<open>
  \<open>parseInt\<close> and \<open>parseFloat\<close> on the captures of the patterns: digits for
  \<open>parseInt\<close>; an optional sign, digits, an optional point and more digits for
  \<open>parseFloat\<close>. \<open>None\<close> is NaN. No capture of the source holds an exponent or
  leading white space, which the model does not read.
\<close>

definition parseInt :: "string \<Rightarrow> int option" where
  "parseInt s = (let ds = takeWhile isDigit s in if ds = [] then None else Some (intOfDigits ds))"

definition parseFloat :: "string \<Rightarrow> num option" where
  "parseFloat s =
     (let ng = (case s of c # _ \<Rightarrow> c = CHR ''-'' | [] \<Rightarrow> False);
          r = (case s of c # t \<Rightarrow> if c = CHR ''-'' \<or> c = CHR ''+'' then t else s | [] \<Rightarrow> []);
          ip = takeWhile isDigit r;
          r2 = dropWhile isDigit r;
          fp = (case r2 of c # t \<Rightarrow> if c = CHR ''.'' then takeWhile isDigit t else [] | [] \<Rightarrow> []);
          v = intOfDigits (ip @ fp)
      in if ip = [] \<and> fp = [] then None
         else Some (normalise (if ng then - v else v) (length fp)))"

text \<open>
  The text of a number (\<open>Number::toString\<close> of the language specification, radix 10):
  \<open>S\<close> are the significant digits and \<open>n\<close> the position of the decimal point.
\<close>

function digitsOf :: "int \<Rightarrow> string" where
  "digitsOf n =
     (if n < 10 then [''0123456789'' ! nat n]
      else digitsOf (n div 10) @ [''0123456789'' ! nat (n mod 10)])"
  by pat_completeness auto
termination
  by (relation "measure nat") auto

declare digitsOf.simps [simp del]

definition stripZeros :: "string \<Rightarrow> string" where
  "stripZeros s = rev (dropWhile (\<lambda>c. c = CHR ''0'') (rev s))"

definition numToString :: "num \<Rightarrow> string" where
  "numToString x =
     (if mant x = 0 then ''0''
      else
        let S = stripZeros (digitsOf \<bar>mant x\<bar>);
            k = int (length S);
            n = int (length (digitsOf \<bar>mant x\<bar>)) - int (scale x)
        in (if mant x < 0 then ''-'' else []) @
           (if k \<le> n \<and> n \<le> 21 then S @ replicate (nat (n - k)) (CHR ''0'')
            else if 0 < n \<and> n \<le> 21 then take (nat n) S @ ''.'' @ drop (nat n) S
            else if - 6 < n \<and> n \<le> 0 then ''0.'' @ replicate (nat (- n)) (CHR ''0'') @ S
            else (if k = 1 then S else take 1 S @ ''.'' @ drop 1 S) @ ''e'' @
                 (if 0 \<le> n - 1 then ''+'' else ''-'') @ digitsOf \<bar>n - 1\<bar>))"

text \<open>
  \<open>[...new Set(xs)]\<close>: the elements in the order of their first insertion. \<open>addNew\<close>
  is one guarded insertion.
\<close>

definition addNew :: "'a list \<Rightarrow> 'a \<Rightarrow> 'a list" where
  "addNew acc x = (if x \<in> set acc then acc else acc @ [x])"

definition uniq :: "'a list \<Rightarrow> 'a list" where
  "uniq xs = foldl addNew [] xs"

section \<open>services/isochrone.js\<close>

definition timePatterns :: "regex list" where
  "timePatterns =
     [seqs [WordB, Grp 1 (Plus digit), Star space,
            Grp 2 (alts [liti ''min'', liti ''minute'', liti ''minutes'']), WordB],
      seqs [WordB, Grp 1 (Plus digit), Star space, liti ''hour'', WordB],
      seqs [WordB, Grp 1 (Plus digit), Star space, liti ''hours'', WordB]]"

definition timeOfMatch :: "string \<times> (nat \<times> string) list \<Rightarrow> int list" where
  "timeOfMatch m =
     (case Option.bind (grp 1 m) parseInt of
        None \<Rightarrow> []
      | Some v \<Rightarrow>
          let unit = (case grp 2 m of None \<Rightarrow> fst m | Some u \<Rightarrow> if u = [] then fst m else u);
              v' = (if includesStr unit ''hour'' then v * 60 else v)
          in if v' > 0 \<and> v' \<le> 60 then [v'] else [])"

definition extractTimeValues :: "string \<Rightarrow> int list" where
  "extractTimeValues query =
     (let times = concat (map (\<lambda>pattern. concat (map timeOfMatch (globalMatch pattern query))) timePatterns)
      in take 4 (sort (uniq times)))"

section \<open>utils/coordinateParser.js\<close>

definition numberRe :: regex where
  "numberRe = seqs [Opt (Cls ''-''), Plus digit, Opt (Cls ''.''), Plus digit]"

definition degree :: regex where
  "degree = Cls [CHR 0xB0]"

definition sep :: regex where
  "sep = Cls '',;|''"

definition pattern1 :: regex where
  "pattern1 = seqs [Grp 1 numberRe, Star space, degree, Star space, Opt (Cls ''NSns''), Star space,
                    sep, Star space, Grp 2 numberRe, Star space, degree, Star space, Opt (Cls ''EWew'')]"

definition pattern2 :: regex where
  "pattern2 = seqs [Grp 1 numberRe, Star space, sep, Star space, Grp 2 numberRe,
                    NegLook (Cls [CHR 0xB0, CHR ''E'', CHR ''W''])]"

definition pattern3 :: regex where
  "pattern3 = seqs [Grp 1 numberRe, Star space, Opt (Cls ''NSns''), Star space,
                    sep, Star space, Grp 2 numberRe, Star space, Opt (Cls ''EWew'')]"

type_synonym coord = "num \<times> num"

definition inRange :: "num \<Rightarrow> num \<Rightarrow> bool" where
  "inRange lat lon = (numVal lat \<ge> - 90 \<and> numVal lat \<le> 90 \<and> numVal lon \<ge> - 180 \<and> numVal lon \<le> 180)"

definition accept :: "coord list \<times> coord set \<Rightarrow> string \<times> (nat \<times> string) list \<Rightarrow> coord list \<times> coord set" where
  "accept st m =
     (case (Option.bind (grp 1 m) parseFloat, Option.bind (grp 2 m) parseFloat) of
        (Some lat, Some lon) \<Rightarrow>
          if inRange lat lon \<and> (lat, lon) \<notin> snd st
          then (fst st @ [(lat, lon)], insert (lat, lon) (snd st))
          else st
      | _ \<Rightarrow> st)"

definition pass :: "regex \<Rightarrow> string \<Rightarrow> coord list \<times> coord set \<Rightarrow> coord list \<times> coord set" where
  "pass pattern txt st = foldl accept st (globalMatch pattern txt)"

definition parseCoordinates :: "string \<Rightarrow> coord list option" where
  "parseCoordinates txt =
     (if txt = [] \<or> includesStr (toLowerCase txt) ''none'' then None
      else let st = pass pattern3 txt (pass pattern2 txt (pass pattern1 txt ([], {})))
           in if fst st = [] then None else Some (fst st))"

definition key :: "coord \<Rightarrow> string" where
  "key c = numToString (fst c) @ '','' @ numToString (snd c)"

fun joinWith :: "string \<Rightarrow> string list \<Rightarrow> string" where
  "joinWith d [] = []"
| "joinWith d [x] = x"
| "joinWith d (x # xs) = x @ d @ joinWith d xs"

definition coordinatesString :: "coord list option \<Rightarrow> string" where
  "coordinatesString r = (case r of None \<Rightarrow> ''none'' | Some ks \<Rightarrow> joinWith '' | '' (map key ks))"


definition candidates :: "regex \<Rightarrow> string \<Rightarrow> coord list" where
  "candidates pattern txt =
     concat (map (\<lambda>m. case (Option.bind (grp 1 m) parseFloat, Option.bind (grp 2 m) parseFloat) of
                          (Some lat, Some lon) \<Rightarrow> if inRange lat lon then [(lat, lon)] else []
                        | _ \<Rightarrow> [])
                 (globalMatch pattern txt))"

text \<open>The least number of code units a match of a pattern consumes.\<close>

fun minLen :: "regex \<Rightarrow> nat" where
  "minLen Eps = 0"
| "minLen (Cls cs) = 1"
| "minLen (NCls cs) = 1"
| "minLen (Seq a b) = minLen a + minLen b"
| "minLen (Alt a b) = min (minLen a) (minLen b)"
| "minLen (Star a) = 0"
| "minLen (LStar a) = 0"
| "minLen (Grp n a) = minLen a"
| "minLen (NegLook a) = 0"
| "minLen WordB = 0"
| "minLen Eol = 0"


section \<open>Agents: collaborators, effects and results\<close>

text \<open>
  An agent is an \<open>async\<close> function that awaits its collaborators one after the
  other. The model runs it against an environment \<open>env\<close>, which answers every call,
  and records the calls in a trace. A call may throw: its answer is \<open>Inl\<close> of the
  thrown error. The text-completion collaborator (\<open>callPerplexity\<close>) is given the
  number of completion requests made before and the request, so that it may answer the
  same request differently each time. \<open>callMapboxDirections\<close> and
  \<open>callMapboxIsochrone\<close> catch their own errors and return \<open>null\<close>, here
  \<open>None\<close>. The performance tracker and the console take no part in the results and
  are left out.

  A prompt is a template literal of the source; the model keeps which agent and step it
  belongs to, which of its two variants it is, and the values interpolated into it.
  A request is the list of messages sent: a prompt alone, or the conversation history
  followed by a prompt.
\<close>

datatype exn = Error string

record queryType =
  qtype :: string
  subtype :: string

datatype agentKind = PointAgent | LineAgent | PolygonAgent | BufferAgent | IsochroneAgent

datatype stepKind = Plan | Extraction | Reflect | Refine | Location | Radius

datatype prompt = Prompt agentKind stepKind bool "string list"

datatype msg = UserMsg prompt | AssistantMsg string

datatype routeData = RouteData string

datatype isochroneData = IsochroneData string

datatype polygonData = PolygonData (pcoordinates: "coord list") (pname: string)

text \<open>
  The feature selected with the \<open>@feature\<close> command, as \<open>getAllFeatures\<close> builds
  it: a marker holds \<open>[lngLat]\<close>, a buffer and an isochrone their center (which may be
  missing), a line and a polygon their positions. A position is \<open>[lng, lat]\<close>.
\<close>

datatype selectedFeature =
    MarkerFeature "coord list"
  | BufferFeature "coord option"
  | IsochroneFeature "coord option"
  | LineFeature "coord list"
  | PolygonFeature "coord list"

record isochroneOptions =
  profile :: string
  contoursMinutes :: "int list option"
  contoursMeters :: "int list option"

datatype render =
    Markers "coord list"
  | DirectLine "coord list"
  | Route routeData "coord list"
  | Polygons "polygonData list"
  | SingleBuffer buffer
  | MultipleBuffers "buffer list"
  | ElevationProfile "coord list"

datatype event =
    Asked "msg list"
  | Shown render
  | Routed "coord list" string
  | IsochroneAsked "real \<times> real" isochroneOptions

record env =
  perplexity :: "nat \<Rightarrow> msg list \<Rightarrow> exn + string"
  display :: "render \<Rightarrow> exn option"
  directions :: "coord list \<Rightarrow> string \<Rightarrow> routeData option"
  isochroneApi :: "real \<times> real \<Rightarrow> isochroneOptions \<Rightarrow> isochroneData option"
  selected :: "selectedFeature option"
  userLocationMarker :: "(real \<times> real) option"
  mapCenter :: "real \<times> real"

type_synonym 'a io = "env \<Rightarrow> event list \<Rightarrow> (exn + 'a) \<times> event list"

definition returns :: "'a \<Rightarrow> 'a io" where
  "returns x = (\<lambda>e t. (Inr x, t))"

definition throws :: "exn \<Rightarrow> 'a io" where
  "throws x = (\<lambda>e t. (Inl x, t))"

definition andThen :: "'a io \<Rightarrow> ('a \<Rightarrow> 'b io) \<Rightarrow> 'b io" where
  "andThen m f = (\<lambda>e t. case m e t of (Inl x, t') \<Rightarrow> (Inl x, t') | (Inr a, t') \<Rightarrow> f a e t')"

definition tryCatch :: "'a io \<Rightarrow> (exn \<Rightarrow> 'a io) \<Rightarrow> 'a io" where
  "tryCatch body handler =
     (\<lambda>e t. case body e t of (Inl x, t') \<Rightarrow> handler x e t' | (Inr a, t') \<Rightarrow> (Inr a, t'))"

definition isAsked :: "event \<Rightarrow> bool" where
  "isAsked ev = (case ev of Asked _ \<Rightarrow> True | _ \<Rightarrow> False)"

definition asked :: "event list \<Rightarrow> nat" where
  "asked t = length (filter isAsked t)"

definition callPerplexity :: "msg list \<Rightarrow> string io" where
  "callPerplexity request = (\<lambda>e t. (perplexity e (asked t) request, t @ [Asked request]))"

definition displayOnMap :: "render \<Rightarrow> unit io" where
  "displayOnMap r = (\<lambda>e t. (case display e r of Some x \<Rightarrow> Inl x | None \<Rightarrow> Inr (), t @ [Shown r]))"

definition callMapboxDirections :: "coord list \<Rightarrow> string \<Rightarrow> routeData option io" where
  "callMapboxDirections cs mode = (\<lambda>e t. (Inr (directions e cs mode), t @ [Routed cs mode]))"

definition callMapboxIsochrone :: "real \<times> real \<Rightarrow> isochroneOptions \<Rightarrow> isochroneData option io" where
  "callMapboxIsochrone c opts = (\<lambda>e t. (Inr (isochroneApi e c opts), t @ [IsochroneAsked c opts]))"

definition getSelectedFeature :: "selectedFeature option io" where
  "getSelectedFeature = (\<lambda>e t. (Inr (selected e), t))"

definition getUserPosition :: "(real \<times> real) io" where
  "getUserPosition =
     (\<lambda>e t. (Inr (case userLocationMarker e of Some lngLat \<Rightarrow> lngLat | None \<Rightarrow> mapCenter e), t))"

text \<open>
  What an agent hands back to its caller: \<open>undefined\<close> (a function that ends without
  \<open>return\<close>, or with a bare one), or one of the result objects:
  \<open>{success: true, ...}\<close>, \<open>{success: false, error}\<close> or \<open>{success: false, message}\<close>.
\<close>

datatype agentResult =
    Undefined
  | PolygonsOk "polygonData list"
  | IsochroneOk "real \<times> real" isochroneData string bool "int list"
  | ElevationOk
  | FailError string
  | FailMessage string

definition message :: "exn \<Rightarrow> string" where
  "message x = (case x of Error m \<Rightarrow> m)"

text \<open>Helpers shared by the agents.\<close>

definition commaCount :: "string \<Rightarrow> nat" where
  "commaCount s = length (filter (\<lambda>c. c = CHR '','') s)"

definition andOtherPattern :: regex where
  "andOtherPattern =
     seqs [WordB, liti ''and'', Plus space, Grp 1 (alts [Plus digit, liti ''ten'', liti ''X'']),
           Plus space, liti ''other'']"

definition andWordPattern :: regex where
  "andWordPattern = seqs [WordB, liti ''and'', WordB]"

definition boolString :: "bool \<Rightarrow> string" where
  "boolString b = (if b then ''true'' else ''false'')"

definition isSpace :: "char \<Rightarrow> bool" where
  "isSpace c = (c \<in> set [CHR '' '', CHR 0x09, CHR 0x0A, CHR 0x0B, CHR 0x0C, CHR 0x0D, CHR 0xA0])"

definition trim :: "string \<Rightarrow> string" where
  "trim s = rev (dropWhile isSpace (rev (dropWhile isSpace s)))"

definition swap :: "coord \<Rightarrow> coord" where
  "swap c = (snd c, fst c)"

text \<open>
  The count of the REFLECT step: \<^verbatim>\<open>extractResponse.match(/(-?\d+\.?\d*),\s*(-?\d+\.?\d*)/g)\<close>.
\<close>

definition looseNumber :: regex where
  "looseNumber = seqs [Opt (Cls ''-''), Plus digit, Opt (Cls ''.''), Star digit]"

definition reflectPattern :: regex where
  "reflectPattern = seqs [Grp 1 looseNumber, Cls '','', Star space, Grp 2 looseNumber]"

definition countCoords :: "string \<Rightarrow> nat" where
  "countCoords s = length (globalMatch reflectPattern s)"

section \<open>agents/pointAgent.js\<close>

definition pointPlan :: "string \<Rightarrow> queryType option \<Rightarrow> (bool \<times> msg list) io" where
  "pointPlan userMessage queryType =
     (case queryType of
        Some q \<Rightarrow> returns (subtype q = ''single'', [])
      | None \<Rightarrow>
          andThen (callPerplexity [UserMsg (Prompt PointAgent Plan False [userMessage])])
            (\<lambda>planResponse.
               returns (includesStr (toLowerCase planResponse) ''single'',
                        [UserMsg (Prompt PointAgent Plan False [userMessage]), AssistantMsg planResponse])))"

definition pointExtract :: "string \<Rightarrow> string \<Rightarrow> msg list \<Rightarrow> (string \<times> msg list) io" where
  "pointExtract userMessage aiMessage history =
     andThen (callPerplexity [UserMsg (Prompt PointAgent Extraction False [userMessage, aiMessage])])
       (\<lambda>extractResponse.
          returns (extractResponse,
                   history @ [UserMsg (Prompt PointAgent Extraction False [userMessage, aiMessage]),
                              AssistantMsg extractResponse]))"

definition pointReflect :: "bool \<Rightarrow> string \<Rightarrow> string \<Rightarrow> msg list \<Rightarrow> bool io" where
  "pointReflect isSingleLocation userMessage extractResponse history =
     (let coordCount = countCoords extractResponse;
          needsRefinement =
            (if isSingleLocation \<and> coordCount > 1 then True
             else if coordCount = 0 then True
             else if \<not> isSingleLocation \<and> coordCount = 1 \<and>
                     includesStr (toLowerCase userMessage) ''multiple'' then True
             else False)
      in if \<not> needsRefinement
         then andThen
                (callPerplexity (history @
                   [UserMsg (Prompt PointAgent Reflect isSingleLocation [extractResponse, userMessage])]))
                (\<lambda>reflectResponse. returns (includesStr (toLowerCase reflectResponse) ''refine''))
         else returns needsRefinement)"

definition pointRefine :: "bool \<Rightarrow> bool \<Rightarrow> string \<Rightarrow> string \<Rightarrow> msg list \<Rightarrow> string io" where
  "pointRefine needsRefinement isSingleLocation userMessage extractResponse history =
     (if needsRefinement
      then callPerplexity (history @
             [UserMsg (Prompt PointAgent Refine isSingleLocation [extractResponse, userMessage])])
      else returns extractResponse)"

definition pointValidate :: "string \<Rightarrow> agentResult io" where
  "pointValidate finalCoordinates =
     (case parseCoordinates finalCoordinates of
        None \<Rightarrow> returns Undefined
      | Some parsedCoordinates \<Rightarrow>
          andThen (displayOnMap (Markers parsedCoordinates)) (\<lambda>_. returns Undefined))"

definition pointBeforeRefine ::
    "string \<Rightarrow> string \<Rightarrow> queryType option \<Rightarrow> (bool \<times> bool \<times> string \<times> msg list) io" where
  "pointBeforeRefine userMessage aiMessage queryType =
     andThen (pointPlan userMessage queryType) (\<lambda>(isSingleLocation, history0).
     andThen (pointExtract userMessage aiMessage history0) (\<lambda>(extractResponse, history).
     andThen (pointReflect isSingleLocation userMessage extractResponse history) (\<lambda>needsRefinement.
     returns (needsRefinement, isSingleLocation, extractResponse, history))))"

definition extractCoordinatesBody :: "string \<Rightarrow> string \<Rightarrow> queryType option \<Rightarrow> agentResult io" where
  "extractCoordinatesBody userMessage aiMessage queryType =
     andThen (pointBeforeRefine userMessage aiMessage queryType)
       (\<lambda>(needsRefinement, isSingleLocation, extractResponse, history).
     andThen (pointRefine needsRefinement isSingleLocation userMessage extractResponse history)
       pointValidate)"

definition extractCoordinates :: "string \<Rightarrow> string \<Rightarrow> queryType option \<Rightarrow> agentResult io" where
  "extractCoordinates userMessage aiMessage queryType =
     tryCatch (extractCoordinatesBody userMessage aiMessage queryType) (\<lambda>error. returns Undefined)"

section \<open>services/directions.js\<close>

definition convertCoordinatesForDirections :: "coord list \<Rightarrow> coord list" where
  "convertCoordinatesForDirections parsed = map swap parsed"

definition detectTransportMode :: "string \<Rightarrow> string" where
  "detectTransportMode userMessage =
     (let query = toLowerCase userMessage in
      if includesStr query ''cycling'' \<or> includesStr query ''bike'' \<or> includesStr query ''bicycle'' \<or>
         includesStr query ''cycle'' then ''mapbox/cycling''
      else if includesStr query ''walking'' \<or> includesStr query ''walk'' \<or>
              includesStr query ''pedestrian'' \<or> includesStr query ''hiking'' then ''mapbox/walking''
      else ''mapbox/driving-traffic'')"

definition needsRouting :: "string \<Rightarrow> bool" where
  "needsRouting userMessage =
     list_ex (includesStr (toLowerCase userMessage))
       [''route'', ''directions'', ''driving'', ''walking'', ''cycling'', ''bike'', ''car'', ''walk'',
        ''how to get'', ''how do i get'', ''distance between'', ''from to'']"

section \<open>agents/lineAgent.js\<close>

definition hasChainKeywords :: "string \<Rightarrow> bool" where
  "hasChainKeywords userMessage =
     list_ex (includesStr (toLowerCase userMessage))
       [''through'', ''via'', ''path'', ''chain'', ''sequence'', ''waypoints'', ''waypoint'']"

definition forcedMultiple :: "string \<Rightarrow> bool" where
  "forcedMultiple userMessage =
     (hasChainKeywords userMessage \<or> test andOtherPattern userMessage \<or> commaCount userMessage + 1 \<ge> 3)"

definition linePlan :: "string \<Rightarrow> queryType option \<Rightarrow> (bool \<times> msg list) io" where
  "linePlan userMessage queryType =
     andThen
       (case queryType of
          Some q \<Rightarrow> returns (subtype q = ''route-single'' \<or> subtype q = ''direct-single'', [])
        | None \<Rightarrow>
            andThen (callPerplexity [UserMsg (Prompt LineAgent Plan False
                       [userMessage, boolString (hasChainKeywords userMessage),
                        boolString (test andOtherPattern userMessage),
                        digitsOf (int (commaCount userMessage + 1))])])
              (\<lambda>planResponse.
                 returns (includesStr (toLowerCase planResponse) ''two'',
                          [UserMsg (Prompt LineAgent Plan False
                             [userMessage, boolString (hasChainKeywords userMessage),
                              boolString (test andOtherPattern userMessage),
                              digitsOf (int (commaCount userMessage + 1))]),
                           AssistantMsg planResponse])))
       (\<lambda>(isTwoPoints, history).
          returns (if forcedMultiple userMessage then False else isTwoPoints, history))"

definition lineExtract :: "string \<Rightarrow> string \<Rightarrow> bool \<Rightarrow> msg list \<Rightarrow> (string \<times> msg list) io" where
  "lineExtract userMessage aiMessage isTwoPoints history =
     (let viaApi =
            andThen (callPerplexity [UserMsg (Prompt LineAgent Extraction isTwoPoints [userMessage, aiMessage])])
              (\<lambda>extractResponse.
                 returns (extractResponse,
                          history @ [UserMsg (Prompt LineAgent Extraction isTwoPoints [userMessage, aiMessage]),
                                     AssistantMsg extractResponse]))
      in case parseCoordinates aiMessage of
           None \<Rightarrow> viaApi
         | Some initialCoords \<Rightarrow>
             if (isTwoPoints \<and> length initialCoords = 2) \<or> (\<not> isTwoPoints \<and> length initialCoords \<ge> 2)
             then returns (coordinatesString (Some initialCoords), history)
             else viaApi)"

definition lineFastCheck :: "string \<Rightarrow> bool \<Rightarrow> string \<Rightarrow> bool \<times> bool \<times> bool" where
  "lineFastCheck userMessage isTwoPoints extractResponse =
     (let coordCount = countCoords extractResponse in
      if isTwoPoints \<and> coordCount > 2
      then (if forcedMultiple userMessage then (True, True, False) else (True, False, isTwoPoints))
      else if coordCount < 2 then (True, False, isTwoPoints)
      else if coordCount \<ge> 2 \<and> \<not> includesStr extractResponse ''|'' \<and> coordCount > 1
      then (True, False, isTwoPoints)
      else (False, False, isTwoPoints))"

definition lineReflect :: "string \<Rightarrow> bool \<Rightarrow> string \<Rightarrow> msg list \<Rightarrow> (bool \<times> bool \<times> bool) io" where
  "lineReflect userMessage isTwoPoints0 extractResponse history =
     (case lineFastCheck userMessage isTwoPoints0 extractResponse of
        (needsRefinement, shouldBeMultiple, isTwoPoints) \<Rightarrow>
          let coordCount = countCoords extractResponse;
              extractionMatchesExpected =
                ((isTwoPoints \<and> coordCount = 2) \<or> (\<not> isTwoPoints \<and> coordCount \<ge> 2))
          in if \<not> needsRefinement \<and> \<not> shouldBeMultiple \<and> extractionMatchesExpected
             then returns (needsRefinement, shouldBeMultiple, isTwoPoints)
             else if \<not> needsRefinement \<and> \<not> shouldBeMultiple
             then andThen
                    (callPerplexity (history @
                       [UserMsg (Prompt LineAgent Reflect isTwoPoints
                          [extractResponse, digitsOf (int coordCount), userMessage])]))
                    (\<lambda>reflectResponse.
                       returns (includesStr (toLowerCase reflectResponse) ''refine'',
                                shouldBeMultiple, isTwoPoints))
             else returns (needsRefinement, shouldBeMultiple, isTwoPoints))"

definition lineRefine :: "bool \<Rightarrow> bool \<Rightarrow> bool \<Rightarrow> string \<Rightarrow> msg list \<Rightarrow> string io" where
  "lineRefine needsRefinement shouldBeMultiple isTwoPoints extractResponse history =
     (if needsRefinement
      then callPerplexity (history @
             [UserMsg (Prompt LineAgent Refine (if shouldBeMultiple then False else isTwoPoints)
                [extractResponse])])
      else returns extractResponse)"

definition lineValidate :: "string \<Rightarrow> queryType option \<Rightarrow> string \<Rightarrow> agentResult io" where
  "lineValidate userMessage queryType finalCoordinates =
     (let needsRoute =
            (case queryType of
               Some q \<Rightarrow> subtype q = ''route-single'' \<or> subtype q = ''route-multi''
             | None \<Rightarrow> needsRouting userMessage);
          transportMode = detectTransportMode userMessage
      in case parseCoordinates finalCoordinates of
           None \<Rightarrow> returns Undefined
         | Some parsedCoordinates \<Rightarrow>
             if length parsedCoordinates = 1
             then andThen (displayOnMap (Markers parsedCoordinates)) (\<lambda>_. returns Undefined)
             else if needsRoute
             then (let coordinates = convertCoordinatesForDirections parsedCoordinates in
                   if length coordinates \<ge> 2
                   then andThen (callMapboxDirections coordinates transportMode)
                          (\<lambda>routeData.
                             case routeData of
                               Some rd \<Rightarrow>
                                 andThen (displayOnMap (Route rd coordinates)) (\<lambda>_. returns Undefined)
                             | None \<Rightarrow>
                                 andThen (displayOnMap (DirectLine parsedCoordinates)) (\<lambda>_. returns Undefined))
                   else andThen (displayOnMap (DirectLine parsedCoordinates)) (\<lambda>_. returns Undefined))
             else andThen (displayOnMap (DirectLine parsedCoordinates)) (\<lambda>_. returns Undefined))"

definition lineBeforeRefine ::
    "string \<Rightarrow> string \<Rightarrow> queryType option \<Rightarrow> (bool \<times> bool \<times> bool \<times> string \<times> msg list) io" where
  "lineBeforeRefine userMessage aiMessage queryType =
     andThen (linePlan userMessage queryType) (\<lambda>(isTwoPoints0, history0).
     andThen (lineExtract userMessage aiMessage isTwoPoints0 history0) (\<lambda>(extractResponse, history).
     andThen (lineReflect userMessage isTwoPoints0 extractResponse history)
       (\<lambda>(needsRefinement, shouldBeMultiple, isTwoPoints).
     returns (needsRefinement, shouldBeMultiple, isTwoPoints, extractResponse, history))))"

definition extractLineCoordinatesBody :: "string \<Rightarrow> string \<Rightarrow> queryType option \<Rightarrow> agentResult io" where
  "extractLineCoordinatesBody userMessage aiMessage queryType =
     andThen (lineBeforeRefine userMessage aiMessage queryType)
       (\<lambda>(needsRefinement, shouldBeMultiple, isTwoPoints, extractResponse, history).
     andThen (lineRefine needsRefinement shouldBeMultiple isTwoPoints extractResponse history)
       (lineValidate userMessage queryType))"

definition extractLineCoordinates :: "string \<Rightarrow> string \<Rightarrow> queryType option \<Rightarrow> agentResult io" where
  "extractLineCoordinates userMessage aiMessage queryType =
     tryCatch (extractLineCoordinatesBody userMessage aiMessage queryType) (\<lambda>error. returns Undefined)"

section \<open>agents/polygonAgent.js\<close>

definition polygonPlan :: "string \<Rightarrow> queryType option \<Rightarrow> (bool \<times> msg list) io" where
  "polygonPlan userMessage queryType =
     (let hasMultiple = (commaCount userMessage + 1 \<ge> 2 \<or> test andWordPattern userMessage) in
      case queryType of
        Some q \<Rightarrow> returns (subtype q = ''multiple'', [])
      | None \<Rightarrow>
          andThen (callPerplexity [UserMsg (Prompt PolygonAgent Plan False [userMessage])])
            (\<lambda>planResponse.
               returns (includesStr (toLowerCase planResponse) ''multiple'' \<or> hasMultiple,
                        [UserMsg (Prompt PolygonAgent Plan False [userMessage]),
                         AssistantMsg planResponse])))"

definition polygonExtract :: "string \<Rightarrow> string \<Rightarrow> bool \<Rightarrow> msg list \<Rightarrow> (string \<times> msg list) io" where
  "polygonExtract userMessage aiMessage isMultiplePolygons history =
     (let viaApi =
            andThen (callPerplexity
                       [UserMsg (Prompt PolygonAgent Extraction isMultiplePolygons [userMessage, aiMessage])])
              (\<lambda>extractResponse.
                 returns (extractResponse,
                          history @
                            [UserMsg (Prompt PolygonAgent Extraction isMultiplePolygons [userMessage, aiMessage]),
                             AssistantMsg extractResponse]))
      in case parseCoordinates aiMessage of
           None \<Rightarrow> viaApi
         | Some initialCoords \<Rightarrow>
             if length initialCoords \<ge> 3
             then returns (coordinatesString (Some initialCoords), history)
             else viaApi)"

definition polygonReflect :: "string \<Rightarrow> string \<Rightarrow> msg list \<Rightarrow> bool io" where
  "polygonReflect userMessage extractResponse history =
     (let coordCount = countCoords extractResponse;
          needsRefinement =
            (if coordCount < 3 then True
             else if \<not> includesStr extractResponse ''|'' \<and> coordCount > 1 then True
             else False)
      in if \<not> needsRefinement \<and> coordCount \<ge> 3 then returns needsRefinement
         else if needsRefinement
         then andThen
                (callPerplexity (history @
                   [UserMsg (Prompt PolygonAgent Reflect False
                      [extractResponse, digitsOf (int coordCount), userMessage])]))
                (\<lambda>reflectResponse. returns (includesStr (toLowerCase reflectResponse) ''refine''))
         else returns needsRefinement)"

definition polygonRefine :: "bool \<Rightarrow> bool \<Rightarrow> string \<Rightarrow> msg list \<Rightarrow> string io" where
  "polygonRefine needsRefinement isMultiplePolygons extractResponse history =
     (if needsRefinement
      then callPerplexity (history @
             [UserMsg (Prompt PolygonAgent Refine isMultiplePolygons [extractResponse])])
      else returns extractResponse)"

text \<open>\<^verbatim>\<open>finalCoordinates.split('||')\<close>; the argument \<open>acc\<close> is the piece being read, reversed.\<close>

fun splitBars :: "string \<Rightarrow> string \<Rightarrow> string list" where
  "splitBars acc [] = [rev acc]"
| "splitBars acc [c] = [rev (c # acc)]"
| "splitBars acc (c # d # s) =
     (if c = CHR ''|'' \<and> d = CHR ''|'' then rev acc # splitBars [] s
      else splitBars (c # acc) (d # s))"

text \<open>
  One parsed ring: positions as \<open>[lng, lat]\<close>, closed by a copy of the first position
  when the last differs; a ring of fewer than 3 positions is dropped.
\<close>

definition closedRing :: "string \<Rightarrow> string \<Rightarrow> polygonData list" where
  "closedRing polyStr nm =
     (case parseCoordinates polyStr of
        None \<Rightarrow> []
      | Some parsedCoords \<Rightarrow>
          let coords = map swap parsedCoords in
          if length coords \<ge> 3
          then [PolygonData (if hd coords \<noteq> last coords then coords @ [hd coords] else coords) nm]
          else [])"

definition parsePolygons :: "bool \<Rightarrow> string \<Rightarrow> polygonData list" where
  "parsePolygons isMultiplePolygons finalCoordinates =
     (if isMultiplePolygons \<and> includesStr finalCoordinates ''||''
      then concat (map (\<lambda>(index, polyStr). closedRing polyStr (''Polygon '' @ digitsOf (int index + 1)))
                       (enumerate 0 (map trim (splitBars [] finalCoordinates))))
      else closedRing finalCoordinates ''Polygon'')"

definition polygonValidate :: "bool \<Rightarrow> string \<Rightarrow> agentResult io" where
  "polygonValidate isMultiplePolygons finalCoordinates =
     (let polygons = parsePolygons isMultiplePolygons finalCoordinates in
      if polygons = [] then throws (Error ''No valid polygons extracted'')
      else andThen (displayOnMap (Polygons polygons)) (\<lambda>_. returns (PolygonsOk polygons)))"

definition polygonBeforeRefine ::
    "string \<Rightarrow> string \<Rightarrow> queryType option \<Rightarrow> (bool \<times> bool \<times> string \<times> msg list) io" where
  "polygonBeforeRefine userMessage aiMessage queryType =
     andThen (polygonPlan userMessage queryType) (\<lambda>(isMultiplePolygons, history0).
     andThen (polygonExtract userMessage aiMessage isMultiplePolygons history0) (\<lambda>(extractResponse, history).
     andThen (polygonReflect userMessage extractResponse history) (\<lambda>needsRefinement.
     returns (needsRefinement, isMultiplePolygons, extractResponse, history))))"

definition extractPolygonBody :: "string \<Rightarrow> string \<Rightarrow> queryType option \<Rightarrow> agentResult io" where
  "extractPolygonBody userMessage aiMessage queryType =
     andThen (polygonBeforeRefine userMessage aiMessage queryType)
       (\<lambda>(needsRefinement, isMultiplePolygons, extractResponse, history).
     andThen (polygonRefine needsRefinement isMultiplePolygons extractResponse history)
       (polygonValidate isMultiplePolygons))"

definition extractPolygon :: "string \<Rightarrow> string \<Rightarrow> queryType option \<Rightarrow> agentResult io" where
  "extractPolygon userMessage aiMessage queryType =
     tryCatch (extractPolygonBody userMessage aiMessage queryType)
       (\<lambda>error. returns (FailError (message error)))"

section \<open>services/isochrone.js: the rest\<close>

definition detectTravelMode :: "string \<Rightarrow> string" where
  "detectTravelMode userMessage =
     (let query = toLowerCase userMessage in
      if includesStr query ''cycling'' \<or> includesStr query ''bike'' \<or> includesStr query ''bicycle'' \<or>
         includesStr query ''cycle'' then ''mapbox/cycling''
      else if includesStr query ''walking'' \<or> includesStr query ''walk'' \<or>
              includesStr query ''pedestrian'' \<or> includesStr query ''hiking'' then ''mapbox/walking''
      else ''mapbox/driving-traffic'')"

text \<open>\<open>Math.round\<close> rounds half up.\<close>

definition mathRound :: "real \<Rightarrow> int" where
  "mathRound x = \<lfloor>x + 1 / 2\<rfloor>"

definition convertToMeters :: "real \<Rightarrow> string \<Rightarrow> int" where
  "convertToMeters v unit =
     (let unitLower = toLowerCase unit in
      if unitLower = ''km'' \<or> unitLower = ''kilometer'' \<or> unitLower = ''kilometers''
      then mathRound (v * 1000)
      else if unitLower = ''mile'' \<or> unitLower = ''miles'' then mathRound (v * 1609.34)
      else mathRound v)"

definition distancePattern :: regex where
  "distancePattern =
     seqs [WordB, Grp 1 (seqs [Plus digit, Opt (Cls ''.''), Star digit]), Star space,
           Grp 2 (alts [liti ''km'', liti ''mile'', liti ''miles'', liti ''meter'', liti ''meters'',
                        liti ''m'']), WordB]"

definition distanceOfMatch :: "string \<times> (nat \<times> string) list \<Rightarrow> int list" where
  "distanceOfMatch m =
     (case (Option.bind (grp 1 m) parseFloat, grp 2 m) of
        (Some v, Some unit) \<Rightarrow>
          let meters = convertToMeters (numVal v) unit in
          if meters > 0 \<and> meters \<le> 100000 then [meters] else []
      | _ \<Rightarrow> [])"

definition extractDistanceValues :: "string \<Rightarrow> int list" where
  "extractDistanceValues query =
     take 4 (sort (uniq (concat (map distanceOfMatch (globalMatch distancePattern query)))))"

section \<open>agents/isochroneAgent.js\<close>

definition isochronePlan :: "string \<Rightarrow> queryType option \<Rightarrow> msg list io" where
  "isochronePlan userMessage queryType =
     (case queryType of
        Some q \<Rightarrow> returns []
      | None \<Rightarrow>
          andThen (callPerplexity [UserMsg (Prompt IsochroneAgent Plan False [userMessage])])
            (\<lambda>planResponse.
               returns [UserMsg (Prompt IsochroneAgent Plan False [userMessage]),
                        AssistantMsg planResponse]))"

definition firstPosition :: "string \<Rightarrow> (real \<times> real) option" where
  "firstPosition txt =
     (case parseCoordinates txt of
        Some (c # _) \<Rightarrow> Some (numVal (snd c), numVal (fst c))
      | _ \<Rightarrow> None)"

definition isochroneLocation :: "string \<Rightarrow> string \<Rightarrow> (real \<times> real) io" where
  "isochroneLocation userMessage aiMessage =
     andThen (callPerplexity [UserMsg (Prompt IsochroneAgent Location False [userMessage, aiMessage])])
       (\<lambda>locationResponse.
          let locationLower = trim (toLowerCase locationResponse) in
          if locationLower = ''here'' \<or> includesStr locationLower ''current location''
          then getUserPosition
          else (case firstPosition locationResponse of
                  Some c \<Rightarrow> returns c
                | None \<Rightarrow>
                    (case firstPosition userMessage of
                       Some c \<Rightarrow> returns c
                     | None \<Rightarrow>
                         (case firstPosition aiMessage of
                            Some c \<Rightarrow> returns c
                          | None \<Rightarrow> throws (Error ''Could not extract location coordinates'')))))"

definition isochroneContours :: "string \<Rightarrow> string \<Rightarrow> real \<times> real \<Rightarrow> agentResult io" where
  "isochroneContours userMessage aiMessage coordinates =
     (let combinedQuery = toLowerCase (userMessage @ '' '' @ aiMessage);
          timeValues = extractTimeValues combinedQuery;
          distanceValues = extractDistanceValues combinedQuery;
          useTime = (length timeValues > 0);
          useDistance = (length distanceValues > 0 \<and> length timeValues = 0)
      in if \<not> useTime \<and> \<not> useDistance
         then throws (Error ''Could not extract time or distance values'')
         else
           let travelMode = detectTravelMode userMessage in
           andThen (callMapboxIsochrone coordinates
                      \<lparr> profile = travelMode,
                        contoursMinutes = (if useTime then Some timeValues else None),
                        contoursMeters = (if useDistance then Some distanceValues else None) \<rparr>)
             (\<lambda>isochroneData.
                case isochroneData of
                  None \<Rightarrow> throws (Error ''Failed to get isochrone data from API'')
                | Some d \<Rightarrow>
                    returns (IsochroneOk coordinates d travelMode useTime
                               (if useTime then timeValues else distanceValues))))"

definition extractIsochroneBody :: "string \<Rightarrow> string \<Rightarrow> queryType option \<Rightarrow> agentResult io" where
  "extractIsochroneBody userMessage aiMessage queryType =
     andThen (isochronePlan userMessage queryType) (\<lambda>history.
     andThen (isochroneLocation userMessage aiMessage) (\<lambda>coordinates.
     isochroneContours userMessage aiMessage coordinates))"

definition extractIsochrone :: "string \<Rightarrow> string \<Rightarrow> queryType option \<Rightarrow> agentResult io" where
  "extractIsochrone userMessage aiMessage queryType =
     tryCatch (extractIsochroneBody userMessage aiMessage queryType)
       (\<lambda>error. returns (FailError (message error)))"

section \<open>agents/elevationAgent.js\<close>

text \<open>
  \<open>extractLineCoordinatesForElevation\<close> has a \<open>try\<close> of its own around a pure
  computation; it returns the positions or \<open>null\<close>.
\<close>

definition extractLineCoordinatesForElevation :: "string \<Rightarrow> coord list option" where
  "extractLineCoordinatesForElevation aiMessage =
     (case parseCoordinates aiMessage of
        None \<Rightarrow> None
      | Some coordinates \<Rightarrow>
          let routeCoords = map swap coordinates in
          if length routeCoords \<ge> 2 then Some routeCoords else None)"

definition extractElevationProfileBody :: "string \<Rightarrow> string \<Rightarrow> queryType option \<Rightarrow> agentResult io" where
  "extractElevationProfileBody userMessage aiMessage queryType =
     andThen getSelectedFeature (\<lambda>selectedFeature.
       let fromQuery =
             (case extractLineCoordinatesForElevation aiMessage of
                Some routeCoordinates \<Rightarrow> Inr routeCoordinates
              | None \<Rightarrow> Inl (FailMessage ''Could not extract line coordinates''));
           found = (case selectedFeature of
                      Some (LineFeature routeCoordinates) \<Rightarrow> Inr routeCoordinates
                    | _ \<Rightarrow> fromQuery)
       in case found of
            Inl failure \<Rightarrow> returns failure
          | Inr routeCoordinates \<Rightarrow>
              if length routeCoordinates < 2 then returns (FailMessage ''Invalid route coordinates'')
              else andThen (displayOnMap (ElevationProfile routeCoordinates)) (\<lambda>_. returns ElevationOk))"

definition extractElevationProfile :: "string \<Rightarrow> string \<Rightarrow> queryType option \<Rightarrow> agentResult io" where
  "extractElevationProfile userMessage aiMessage queryType =
     tryCatch (extractElevationProfileBody userMessage aiMessage queryType)
       (\<lambda>error. returns (FailMessage (message error)))"

section \<open>agents/bufferAgent.js\<close>

text \<open>
  Step 1, from the selected feature: the text \<^verbatim>\<open>`${lat},${lon}`\<close> of the position the
  feature type designates (the marker's position, the center of a buffer or an
  isochrone, the middle position of a line, the first position of a polygon).
\<close>

definition centerOfFeature :: "selectedFeature \<Rightarrow> string option" where
  "centerOfFeature selectedFeature =
     (case selectedFeature of
        MarkerFeature ps \<Rightarrow> (case ps of [] \<Rightarrow> None | lngLat # _ \<Rightarrow> Some (key (swap lngLat)))
      | BufferFeature c \<Rightarrow> map_option (\<lambda>lngLat. key (swap lngLat)) c
      | IsochroneFeature c \<Rightarrow> map_option (\<lambda>lngLat. key (swap lngLat)) c
      | LineFeature ps \<Rightarrow> (if ps = [] then None else Some (key (swap (ps ! (length ps div 2)))))
      | PolygonFeature ps \<Rightarrow> (case ps of [] \<Rightarrow> None | lngLat # _ \<Rightarrow> Some (key (swap lngLat))))"

definition bufferCenterResponse :: "string \<Rightarrow> string \<Rightarrow> bool \<Rightarrow> string io" where
  "bufferCenterResponse userMessage aiMessage isMultiple =
     andThen getSelectedFeature (\<lambda>selectedFeature.
       case Option.bind selectedFeature centerOfFeature of
         Some centerCoord \<Rightarrow> returns centerCoord
       | None \<Rightarrow>
           (let viaApi = callPerplexity
                           [UserMsg (Prompt BufferAgent Extraction isMultiple [userMessage, aiMessage])]
            in case parseCoordinates aiMessage of
                 None \<Rightarrow> viaApi
               | Some initialCoords \<Rightarrow>
                   if (isMultiple \<and> length initialCoords \<ge> 2) \<or> (\<not> isMultiple \<and> length initialCoords = 1)
                   then returns (coordinatesString (Some initialCoords))
                   else viaApi))"

definition decimalPattern :: regex where
  "decimalPattern = seqs [Plus digit, Opt (Seq (Cls ''.'') (Plus digit))]"

definition unitPattern :: regex where
  "unitPattern =
     alts [liti ''km'', liti ''kilometer'', liti ''kilometers'', liti ''mile'', liti ''miles'',
           liti ''m'', liti ''meter'', liti ''meters'', liti ''mi'']"

definition prepositionPattern :: regex where
  "prepositionPattern = alts [liti ''on'', liti ''over'', liti ''around'', liti ''for'']"

definition tailPattern :: regex where
  "tailPattern = alts [Cls '','', liti ''and'', seqs [Star space, Eol]]"

definition locationPattern :: regex where
  "locationPattern =
     seqs [WordB, prepositionPattern, Plus space, Grp 1 (LPlus (NCls '','')), tailPattern]"

definition radiusPattern :: regex where
  "radiusPattern =
     seqs [Grp 1 decimalPattern, Star space, Grp 2 unitPattern, Star space, prepositionPattern,
           Star space, Grp 3 (LPlus (NCls '','')), tailPattern]"

definition simpleRadiusPattern :: regex where
  "simpleRadiusPattern = seqs [Grp 1 decimalPattern, Star space, Grp 2 unitPattern]"

definition toKm :: "real \<Rightarrow> string \<Rightarrow> real" where
  "toKm v unit =
     (if unit = ''km'' \<or> unit = ''kilometer'' \<or> unit = ''kilometers'' then v
      else if unit = ''mile'' \<or> unit = ''miles'' \<or> unit = ''mi'' then v * 1.60934
      else if unit = ''m'' \<or> unit = ''meter'' \<or> unit = ''meters'' then v / 1000
      else 5)"

definition radiusOfMatch :: "string \<times> (nat \<times> string) list \<Rightarrow> (string \<times> real) list" where
  "radiusOfMatch m =
     (case (Option.bind (grp 1 m) parseFloat, grp 2 m, grp 3 m) of
        (Some v, Some unit, Some location) \<Rightarrow>
          [(toLowerCase (trim location), toKm (numVal v) (toLowerCase unit))]
      | _ \<Rightarrow> [])"

definition firstMatch :: "regex \<Rightarrow> string \<Rightarrow> (string \<times> (nat \<times> string) list) option" where
  "firstMatch r txt =
     (case search r None txt of
        None \<Rightarrow> None
      | Some (sfx, (p, rest, caps)) \<Rightarrow> Some (take (length sfx - length rest) sfx, caps))"

definition bufferRadii :: "string \<Rightarrow> nat \<Rightarrow> (string \<times> real) list io" where
  "bufferRadii userMessage n =
     (let radiusMatches = concat (map radiusOfMatch (globalMatch radiusPattern userMessage)) in
      if length radiusMatches = 0
      then (case firstMatch simpleRadiusPattern userMessage of
              Some m \<Rightarrow>
                (case (Option.bind (grp 1 m) parseFloat, grp 2 m) of
                   (Some v, Some unit) \<Rightarrow> returns (replicate n ([], toKm (numVal v) (toLowerCase unit)))
                 | _ \<Rightarrow> returns (replicate n ([], 5)))
            | None \<Rightarrow>
                andThen (callPerplexity [UserMsg (Prompt BufferAgent Radius False [userMessage])])
                  (\<lambda>extractRadiusResponse.
                     let radiusValue =
                           (case Option.bind (firstMatch decimalPattern extractRadiusResponse)
                                   (\<lambda>m. parseFloat (fst m)) of
                              Some v \<Rightarrow> numVal v
                            | None \<Rightarrow> 5)
                     in returns (replicate n ([], radiusValue))))
      else returns radiusMatches)"

definition getRadiusForCenter :: "(string \<times> real) list \<Rightarrow> nat \<Rightarrow> real" where
  "getRadiusForCenter radiusMatches centerIndex =
     (if length radiusMatches > 0 \<and> fst (hd radiusMatches) \<noteq> []
      then (if centerIndex < length radiusMatches then snd (radiusMatches ! centerIndex)
            else snd (last radiusMatches))
      else if length radiusMatches > 0 then snd (hd radiusMatches) else 5)"

definition extractBufferBody :: "string \<Rightarrow> string \<Rightarrow> queryType option \<Rightarrow> agentResult io" where
  "extractBufferBody userMessage aiMessage queryType =
     (let isMultiple = (case queryType of Some q \<Rightarrow> subtype q = ''multiple'' | None \<Rightarrow> False) in
      andThen (bufferCenterResponse userMessage aiMessage isMultiple) (\<lambda>extractCenterResponse.
        case parseCoordinates extractCenterResponse of
          None \<Rightarrow> returns Undefined
        | Some centerCoordinates \<Rightarrow>
            let centerPairs = map (\<lambda>c. (numVal (fst c), numVal (snd c))) centerCoordinates;
                locationCount = length (globalMatch locationPattern userMessage);
                expectedLocations = max 1 locationCount;
                centers = bufferCenters isMultiple expectedLocations centerPairs
            in if length centers = 0 then returns Undefined
               else
                 andThen (bufferRadii userMessage (length centers)) (\<lambda>radiusMatches.
                   let buffers = map (\<lambda>(index, c). makeBuffer c (getRadiusForCenter radiusMatches index))
                                     (enumerate 0 centers)
                   in andThen
                        (if isMultiple \<and> length buffers > 1
                         then displayOnMap (MultipleBuffers buffers)
                         else displayOnMap (SingleBuffer (hd buffers)))
                        (\<lambda>_. returns Undefined))))"

definition extractBuffer :: "string \<Rightarrow> string \<Rightarrow> queryType option \<Rightarrow> agentResult io" where
  "extractBuffer userMessage aiMessage queryType =
     tryCatch (extractBufferBody userMessage aiMessage queryType) (\<lambda>error. returns Undefined)"

section \<open>Traces of an agent run\<close>

text \<open>
  A refinement request is a completion request whose last message is a REFINE prompt.
  \<open>norefine m\<close>: the computation \<open>m\<close> only appends to the trace, and nothing it
  appends is a refinement request. \<open>quiet m\<close>: \<open>m\<close> only appends to the trace,
  asks the text-completion collaborator nothing, and does the same from any trace.
\<close>

definition isRefineRequest :: "msg list \<Rightarrow> bool" where
  "isRefineRequest request =
     (case rev request of UserMsg (Prompt _ Refine _ _) # _ \<Rightarrow> True | _ \<Rightarrow> False)"

definition refinements :: "event list \<Rightarrow> msg list list" where
  "refinements t =
     concat (map (\<lambda>ev. case ev of Asked r \<Rightarrow> if isRefineRequest r then [r] else [] | _ \<Rightarrow> []) t)"

definition norefine :: "'a io \<Rightarrow> bool" where
  "norefine m = (\<forall>e t. \<exists>evs. snd (m e t) = t @ evs \<and> refinements evs = [])"

definition quiet :: "'a io \<Rightarrow> bool" where
  "quiet m = (\<forall>e t. \<exists>r evs. m e t = (r, t @ evs) \<and> m e [] = (r, evs) \<and> filter isAsked evs = [])"

text \<open>
  Two environments for the runs evaluated below. In the first the text-completion
  collaborator answers a REFLECT request with \<open>refine\<close> and every other request with
  the single pair \<open>40.7,-74.0\<close>, and the map never throws. In the second every
  completion request fails and every display call throws.
\<close>

definition shortAnswerEnv :: env where
  "shortAnswerEnv =
     \<lparr> perplexity = (\<lambda>k request.
          case rev request of
            UserMsg (Prompt _ Reflect _ _) # _ \<Rightarrow> Inr ''refine''
          | _ \<Rightarrow> Inr ''40.7,-74.0''),
       display = (\<lambda>r. None),
       directions = (\<lambda>cs mode. None),
       isochroneApi = (\<lambda>c opts. None),
       selected = None,
       userLocationMarker = None,
       mapCenter = (0, 0) \<rparr>"

definition offlineEnv :: env where
  "offlineEnv =
     \<lparr> perplexity = (\<lambda>k request. Inl (Error ''Failed to fetch'')),
       display = (\<lambda>r. Some (Error ''Style is not done loading'')),
       directions = (\<lambda>cs mode. None),
       isochroneApi = (\<lambda>c opts. None),
       selected = None,
       userLocationMarker = None,
       mapCenter = (0, 0) \<rparr>"


section \<open>Properties of the geometry builder\<close>

lemma generateCircle_length: "length (generateCircle c r n) = n + 1"
  by (simp add: generateCircle_def Let_def)

lemma generateCircle_nth:
  "i \<le> n \<Longrightarrow> generateCircle c r n ! i =
     circlePoint (fst c) (snd c) (r / 111) (r / (111 * cos (fst c * pi / 180))) n i"
  unfolding generateCircle_def Let_def
  by (simp add: nth_map_upt del: upt_Suc)

lemma polygonCoords_nonempty:
  "polygon b \<noteq> [] \<Longrightarrow> polygonCoords b = Some (polygon b @ [hd (polygon b)])"
  by (cases "polygon b") (simp_all add: polygonCoords_def)


text \<open>
  C10. Every ring that \<open>displayBufferOnMap\<close> and \<open>displayMultipleBuffersOnMap\<close> hand
  to the map source has \<open>numPoints + 2\<close> vertices: the \<open>numPoints + 1\<close> samples of
  \<open>generateCircle\<close> followed by its first sample once more. The last vertex of the
  rendered ring is its first one, and the closing sample of \<open>generateCircle\<close> (the one
  of index \<open>numPoints\<close>, at angle ratio \<open>numPoints / numPoints\<close>) sits at position
  \<open>numPoints\<close>.
\<close>

theorem rendered_ring_has_numPoints_plus_two:
  "displayBufferOnMap \<lparr>center = ctr, radius = r, polygon = generateCircle c r n\<rparr>
      = Some (generateCircle c r n @ [hd (generateCircle c r n)])
   \<and> displayMultipleBuffersOnMap
        (map (\<lambda>(c, r). \<lparr>center = (snd c, fst c), radius = r, polygon = generateCircle c r n\<rparr>) crs)
      = map (\<lambda>(c, r). generateCircle c r n @ [hd (generateCircle c r n)]) crs
   \<and> length (generateCircle c r n @ [hd (generateCircle c r n)]) = n + 2
   \<and> last (generateCircle c r n @ [hd (generateCircle c r n)])
      = hd (generateCircle c r n @ [hd (generateCircle c r n)])
   \<and> (generateCircle c r n @ [hd (generateCircle c r n)]) ! n
      = circlePoint (fst c) (snd c) (r / 111) (r / (111 * cos (fst c * pi / 180))) n n"
proof -
  have ne: "generateCircle c r n \<noteq> []" for c r
    using generateCircle_length [of c r n] by (cases "generateCircle c r n") simp_all
  have one: "polygonCoords \<lparr>center = ctr, radius = r, polygon = generateCircle c r n\<rparr>
      = Some (generateCircle c r n @ [hd (generateCircle c r n)])" for ctr c r
    using ne by (simp add: polygonCoords_nonempty)
  have many: "displayMultipleBuffersOnMap
        (map (\<lambda>(c, r). \<lparr>center = (snd c, fst c), radius = r, polygon = generateCircle c r n\<rparr>) crs)
      = map (\<lambda>(c, r). generateCircle c r n @ [hd (generateCircle c r n)]) crs"
    unfolding displayMultipleBuffersOnMap_def
    by (induction crs) (auto simp: one)
  have nth: "(generateCircle c r n @ [hd (generateCircle c r n)]) ! n = generateCircle c r n ! n"
    by (simp add: nth_append generateCircle_length)
  show ?thesis
    using ne [of c r] one many nth
    by (simp add: displayBufferOnMap_def generateCircle_length generateCircle_nth)
qed

text \<open>The buffers of the agent use the default of 64 segments: 66 vertices reach the map.\<close>

lemma agent_ring_has_66_vertices:
  "\<exists>ring. displayBufferOnMap (makeBuffer c r) = Some ring \<and> length ring = 66"
  by (cases "generateCircle c r 64")
     (use generateCircle_length [of c r 64] in
       \<open>auto simp: makeBuffer_def displayBufferOnMap_def polygonCoords_def\<close>)

section \<open>Properties of the center validation\<close>

lemma absorbNearby_mono: "used \<subseteq> absorbNearby p cs used"
  by (induction p cs used rule: absorbNearby.induct) auto

lemma clusterLoop_subset:
  "set (fst (clusterLoop cs rest (clusters, used))) \<subseteq> set clusters \<union> snd ` set rest"
  by (induction cs rest "(clusters, used)" arbitrary: clusters used rule: clusterLoop.induct)
     (auto split: if_splits)

lemma clusterNearbyCenters_subset: "set (clusterNearbyCenters cs) \<subseteq> set cs"
  using clusterLoop_subset [of "enumerate 0 cs" "enumerate 0 cs" "[]" "{}"]
  by (simp add: clusterNearbyCenters_def flip: set_map)

lemma bufferCenters_subset: "set (bufferCenters m e ps) \<subseteq> set (validCenters ps)"
  using clusterNearbyCenters_subset by (auto simp: bufferCenters_def dedupCenters_def)

text \<open>
  C6, as stated, fails: a coordinate within 0.1 degrees of one axis only is kept. The
  parsed pair \<open>(0.0625, 30)\<close> has \<open>|lat| < 0.1\<close> and is a buffer center.
\<close>

theorem near_one_axis_survives:
  "\<bar>1 / 16 :: real\<bar> < 0.1 \<and> (1 / 16, 30) \<in> set (bufferCenters False 1 [(1 / 16, 30)])"
  by (simp add: bufferCenters_def dedupCenters_def validCenters_def isInvalid_def)

text \<open>
  C6, amended: a parsed coordinate that is exactly \<open>(0,0)\<close>, exactly \<open>(1,0)\<close>, or
  within 0.1 degrees of both axes at once (\<open>|lat| < 0.1\<close> and \<open>|lon| < 0.1\<close>) is
  discarded and never becomes a buffer center, whether or not the clustering block runs.
\<close>

theorem artifacts_near_origin_discarded:
  "(lat = 0 \<and> lon = 0) \<or> (lat = 1 \<and> lon = 0) \<or> (\<bar>lat\<bar> < 0.1 \<and> \<bar>lon\<bar> < 0.1)
   \<Longrightarrow> (lat, lon) \<notin> set (bufferCenters isMultiple expectedLocations centerPairs)"
  using bufferCenters_subset [of isMultiple expectedLocations centerPairs]
  by (auto simp: validCenters_def isInvalid_def)

theorem artifacts_near_origin_discarded_witness:
  "(0.05, 0.05) \<notin> set (bufferCenters True 1 [(0.05, 0.05), (28.6, 77.2)])"
  by (rule artifacts_near_origin_discarded) simp

section \<open>Properties of the clustering\<close>

lemma absorbNearby_none:
  "(\<forall>(j, q) \<in> set cs. j \<notin> used \<longrightarrow> \<not> nearby p q) \<Longrightarrow> absorbNearby p cs used = used"
  by (induction p cs used rule: absorbNearby.induct) auto

lemma clusterLoop_separated:
  assumes sep: "\<forall>i<length cs. \<forall>j<length cs. i \<noteq> j \<longrightarrow> \<not> nearby (cs ! i) (cs ! j)"
  shows "k \<le> length cs \<Longrightarrow>
    clusterLoop (enumerate 0 cs) (drop k (enumerate 0 cs)) (take k cs, {..<k}) = (cs, {..<length cs})"
proof (induction "length cs - k" arbitrary: k)
  case 0
  then show ?case by simp
next
  case (Suc d)
  then have k: "k < length cs" by simp
  have step: "drop k (enumerate 0 cs) = (k, cs ! k) # drop (Suc k) (enumerate 0 cs)"
    using k by (simp add: Cons_nth_drop_Suc [symmetric] nth_enumerate_eq)
  have "\<forall>(j, q) \<in> set (enumerate 0 cs). j \<notin> insert k {..<k} \<longrightarrow> \<not> nearby (cs ! k) q"
  proof -
    have "\<not> nearby (cs ! k) (cs ! j)" if "j < length cs" "j \<noteq> k" for j
      using sep k that by blast
    then show ?thesis by (fastforce simp: in_set_enumerate_eq)
  qed
  then have "absorbNearby (cs ! k) (enumerate 0 cs) (insert k {..<k}) = insert k {..<k}"
    by (rule absorbNearby_none)
  moreover have "insert k {..<k} = {..<Suc k}" by auto
  moreover have "take k cs @ [cs ! k] = take (Suc k) cs"
    using k by (simp add: take_Suc_conv_app_nth)
  moreover have "clusterLoop (enumerate 0 cs) (drop (Suc k) (enumerate 0 cs)) (take (Suc k) cs, {..<Suc k})
      = (cs, {..<length cs})"
    using Suc k by (intro Suc.hyps(1)) auto
  ultimately show ?case by (simp add: step)
qed

text \<open>
  C9. On a list of centers of which no two (at different positions) are within 0.5
  degrees of latitude and 0.5 degrees of longitude of each other, the clustering
  returns the list unchanged.
\<close>

theorem clustering_fixes_separated_centers:
  assumes "\<forall>i<length centers. \<forall>j<length centers. i \<noteq> j \<longrightarrow>
             \<not> (\<bar>fst (centers ! i) - fst (centers ! j)\<bar> < 0.5 \<and>
                \<bar>snd (centers ! i) - snd (centers ! j)\<bar> < 0.5)"
  shows "clusterNearbyCenters centers = centers"
  using clusterLoop_separated [of centers 0] assms
  by (simp add: clusterNearbyCenters_def nearby_def)

theorem clustering_fixes_separated_centers_witness:
  "clusterNearbyCenters [(28.6, 77.2), (19.07, 72.87), (12.97, 77.59)]
     = [(28.6, 77.2), (19.07, 72.87), (12.97, 77.59)]"
  by (rule clustering_fixes_separated_centers)
     (simp add: nth_Cons' less_Suc_eq numeral_3_eq_3 all_conj_distrib)

text \<open>
  Beyond separated inputs: the representatives the clustering keeps are pairwise apart,
  whatever the input, so running the block on its own output changes nothing.
\<close>

lemma nearby_sym: "nearby p q = nearby q p"
  by (auto simp: nearby_def abs_minus_commute)

lemma absorbNearby_complete:
  "(j, q) \<in> set cs \<Longrightarrow> j \<notin> absorbNearby p cs used \<Longrightarrow> \<not> nearby p q"
proof (induction p cs used rule: absorbNearby.induct)
  case (1 p used)
  then show ?case by simp
next
  case (2 p otherIndex q' rest used)
  show ?case
  proof (cases "(j, q) = (otherIndex, q')")
    case True
    with "2.prems" absorbNearby_mono [of "insert otherIndex used" p rest]
      absorbNearby_mono [of used p rest]
    show ?thesis by (auto split: if_splits)
  next
    case False
    with "2.prems" have "(j, q) \<in> set rest" by auto
    with "2.prems" "2.IH" show ?thesis by (auto split: if_splits)
  qed
qed

lemma clusterLoop_apart:
  "sorted_wrt (\<lambda>x y. \<not> nearby x y) clusters \<Longrightarrow>
   \<forall>(j, q) \<in> set cs. j \<notin> used \<longrightarrow> (\<forall>c \<in> set clusters. \<not> nearby c q) \<Longrightarrow>
   set rest \<subseteq> set cs \<Longrightarrow>
   sorted_wrt (\<lambda>x y. \<not> nearby x y) (fst (clusterLoop cs rest (clusters, used)))"
proof (induction rest arbitrary: clusters used)
  case Nil
  then show ?case by simp
next
  case (Cons ip rest)
  obtain index p where ip: "ip = (index, p)" by (cases ip)
  show ?case
  proof (cases "index \<in> used")
    case True
    with Cons ip show ?thesis by simp
  next
    case False
    from Cons.prems ip have mem: "(index, p) \<in> set cs" by simp
    with Cons.prems(2) False have far: "\<forall>c \<in> set clusters. \<not> nearby c p" by blast
    have s: "sorted_wrt (\<lambda>x y. \<not> nearby x y) (clusters @ [p])"
      using Cons.prems(1) far by (simp add: sorted_wrt_append)
    have inv: "\<forall>(j, q) \<in> set cs. j \<notin> absorbNearby p cs (insert index used) \<longrightarrow>
        (\<forall>c \<in> set (clusters @ [p]). \<not> nearby c q)"
    proof (clarify)
      fix j q c
      assume jq: "(j, q) \<in> set cs" and j: "j \<notin> absorbNearby p cs (insert index used)"
        and c: "c \<in> set (clusters @ [p])" and n: "nearby c q"
      from j absorbNearby_mono [of "insert index used" p cs] have "j \<notin> used" by auto
      with Cons.prems(2) jq have "\<forall>c \<in> set clusters. \<not> nearby c q" by blast
      moreover from absorbNearby_complete [OF jq j] have "\<not> nearby p q" .
      ultimately show False using c n by auto
    qed
    from Cons.IH [OF s inv] Cons.prems(3) False ip show ?thesis by simp
  qed
qed

lemma clusterNearbyCenters_apart:
  "sorted_wrt (\<lambda>x y. \<not> nearby x y) (clusterNearbyCenters cs)"
  unfolding clusterNearbyCenters_def
  by (rule clusterLoop_apart) simp_all

lemma clusterNearbyCenters_idem:
  "clusterNearbyCenters (clusterNearbyCenters cs) = clusterNearbyCenters cs"
proof -
  let ?ys = "clusterNearbyCenters cs"
  have "\<forall>i<length ?ys. \<forall>j<length ?ys. i \<noteq> j \<longrightarrow> \<not> nearby (?ys ! i) (?ys ! j)"
  proof (intro allI impI)
    fix i j assume ij: "i < length ?ys" "j < length ?ys" "i \<noteq> j"
    from clusterNearbyCenters_apart [of cs]
    have *: "\<And>a b. a < b \<Longrightarrow> b < length ?ys \<Longrightarrow> \<not> nearby (?ys ! a) (?ys ! b)"
      by (simp add: sorted_wrt_iff_nth_less)
    show "\<not> nearby (?ys ! i) (?ys ! j)"
    proof (cases "i < j")
      case True
      with ij * show ?thesis by blast
    next
      case False
      with ij have "j < i" by simp
      with ij * [of j i] show ?thesis by (simp add: nearby_sym)
    qed
  qed
  from clusterLoop_separated [OF this, of 0] show ?thesis
    by (simp add: clusterNearbyCenters_def)
qed


section \<open>Properties of the pattern matcher\<close>

declare matches.simps(6, 7) [simp del]

lemma matches_minLen:
  "st' \<in> set (matches r st) \<Longrightarrow> length (fst (snd st')) + minLen r \<le> length (fst (snd st))"
proof (induction r st arbitrary: st' rule: matches.induct)
  case (4 a b st)
  then obtain mid where mid: "mid \<in> set (matches a st)" and st': "st' \<in> set (matches b mid)"
    by auto
  from "4.IH"(1) [OF mid] "4.IH"(2) [OF mid st'] show ?case by simp
next
  case (6 a p s g)
  show ?case
  proof (cases "st' = (p, s, g)")
    case True
    then show ?thesis by simp
  next
    case False
    have "st' \<in> set (concat (map (\<lambda>(p', s', g'). if length s' < length s then matches (Star a) (p', s', g') else [])
                 (matches a (p, s, g))) @ [(p, s, g)])"
      using "6.prems" by (subst (asm) matches.simps(6))
    with False obtain p1 s1 g1 where mid: "(p1, s1, g1) \<in> set (matches a (p, s, g))"
      and lt: "length s1 < length s" and st': "st' \<in> set (matches (Star a) (p1, s1, g1))"
      by (auto split: if_splits)
    from "6.IH"(2) [OF mid refl refl lt st'] lt show ?thesis by simp
  qed
next
  case (5 a b st)
  then consider "st' \<in> set (matches a st)" | "st' \<in> set (matches b st)" by auto
  then show ?case
  proof cases
    case 1
    from "5.IH"(1) [OF 1] show ?thesis by simp
  next
    case 2
    from "5.IH"(2) [OF 2] show ?thesis by simp
  qed
next
  case (7 a p s g)
  show ?case
  proof (cases "st' = (p, s, g)")
    case True
    then show ?thesis by simp
  next
    case False
    have "st' \<in> set ((p, s, g) #
        concat (map (\<lambda>(p', s', g'). if length s' < length s then matches (LStar a) (p', s', g') else [])
                 (matches a (p, s, g))))"
      using "7.prems" by (subst (asm) matches.simps(7))
    with False obtain p1 s1 g1 where mid: "(p1, s1, g1) \<in> set (matches a (p, s, g))"
      and lt: "length s1 < length s" and st': "st' \<in> set (matches (LStar a) (p1, s1, g1))"
      by (auto split: if_splits)
    from "7.IH"(2) [OF mid refl refl lt st'] lt show ?thesis by simp
  qed
qed (auto split: list.splits if_splits)

lemma search_result:
  "search r p s = Some (sfx, st) \<Longrightarrow> \<exists>q. st \<in> set (matches r (q, sfx, []))"
  by (induction s arbitrary: p) (auto split: list.splits, (metis list.set_intros(1))+)

lemma execAll_progress:
  "0 < minLen r \<Longrightarrow> search r p s = Some (sfx, (p', rest, caps)) \<Longrightarrow> length rest < length sfx"
  by (fastforce dest: search_result matches_minLen)

lemma patterns_consume:
  "0 < minLen pattern1" "0 < minLen pattern2" "0 < minLen pattern3"
  "\<forall>r \<in> set timePatterns. 0 < minLen r"
  by (simp_all add: pattern1_def pattern2_def pattern3_def timePatterns_def numberRe_def Plus_def digit_def)

section \<open>Properties of the time extraction\<close>

lemma extractTimeValues_at_most_4: "length (extractTimeValues query) \<le> 4"
  by (simp add: extractTimeValues_def Let_def)

lemma extractTimeValues_sorted: "sorted (extractTimeValues query)"
  by (simp add: extractTimeValues_def Let_def sorted_wrt_take)

text \<open>
  C3. On the query \<open>15, 30, 45 min drive zone\<close> only \<open>45\<close> is followed by a unit,
  so the first pattern matches once and the other two never: \<open>extractTimeValues\<close>
  returns \<open>[45]\<close>, not \<open>[15, 30, 45]\<close>.
\<close>

theorem extractTimeValues_comma_list:
  "extractTimeValues ''15, 30, 45 min drive zone'' = [45]"
  by code_simp

section \<open>Properties of the coordinate parser\<close>

text \<open>
  C2. The literal text of the pair \<open>(5, 7)\<close> is \<open>5,7\<close>; every pattern asks for two
  digits at least in each number (\<^verbatim>\<open>\d+\.?\d+\<close>), and the parser returns \<open>none\<close>.
\<close>

theorem parseCoordinates_single_digits:
  "numToString (Num 5 0) @ '','' @ numToString (Num 7 0) = ''5,7'' \<and>
   inRange (Num 5 0) (Num 7 0) \<and>
   parseCoordinates (numToString (Num 5 0) @ '','' @ numToString (Num 7 0)) = None"
  by code_simp

lemma foldl_accept:
  "snd st = set (fst st) \<Longrightarrow>
   foldl accept st ms =
     (foldl addNew (fst st) (concat (map (\<lambda>m. case (Option.bind (grp 1 m) parseFloat, Option.bind (grp 2 m) parseFloat) of
                          (Some lat, Some lon) \<Rightarrow> if inRange lat lon then [(lat, lon)] else []
                        | _ \<Rightarrow> []) ms)),
      set (foldl addNew (fst st) (concat (map (\<lambda>m. case (Option.bind (grp 1 m) parseFloat, Option.bind (grp 2 m) parseFloat) of
                          (Some lat, Some lon) \<Rightarrow> if inRange lat lon then [(lat, lon)] else []
                        | _ \<Rightarrow> []) ms))))"
proof (induction ms arbitrary: st)
  case Nil
  then show ?case by (cases st) simp
next
  case (Cons m ms)
  have inv: "snd (accept st m) = set (fst (accept st m))"
    using Cons.prems by (auto simp: accept_def split: option.splits)
  show ?case
    using Cons.IH [OF inv] Cons.prems
    by (auto simp: accept_def addNew_def split: option.splits)
qed

lemma pass_candidates:
  "snd st = set (fst st) \<Longrightarrow>
   pass pattern txt st = (foldl addNew (fst st) (candidates pattern txt),
                          set (foldl addNew (fst st) (candidates pattern txt)))"
  unfolding pass_def candidates_def by (rule foldl_accept)

text \<open>
  C7, as stated, fails: in the text below the plain pair \<open>10.5,20.5\<close> stands first
  and the degree-notation pair second, and the parser returns them in the other order,
  because the degree-notation pass runs over the whole text before the plain pass.
\<close>

theorem parse_order_not_text_order:
  "coordinatesString (parseCoordinates
      (''10.5,20.5 and 30.5'' @ [CHR 0xB0] @ ''N, 40.5'' @ [CHR 0xB0] @ ''E''))
   = ''30.5,40.5 | 10.5,20.5''"
  by code_simp

text \<open>
  C7, amended: the pairs the parser returns are ordered by pass first: the pairs of the
  matches of the first pattern in match order, then those of the second pattern, then
  those of the third, each pair kept at its first occurrence in that sequence (a match
  is a candidate when both numbers are in range).
\<close>

theorem parse_order_by_pass:
  "parseCoordinates txt = Some ks \<Longrightarrow>
   ks = uniq (candidates pattern1 txt @ candidates pattern2 txt @ candidates pattern3 txt)"
  by (auto simp: parseCoordinates_def pass_candidates uniq_def Let_def split: if_splits)

theorem parse_order_by_pass_witness:
  "parseCoordinates ''40.7128,-74.0060 | 34.05 N, 118.24 W'' =
     Some (uniq (candidates pattern1 ''40.7128,-74.0060 | 34.05 N, 118.24 W'' @
                 candidates pattern2 ''40.7128,-74.0060 | 34.05 N, 118.24 W'' @
                 candidates pattern3 ''40.7128,-74.0060 | 34.05 N, 118.24 W''))"
proof -
  have "parseCoordinates ''40.7128,-74.0060 | 34.05 N, 118.24 W'' =
          Some [(Num 407128 4, Num (- 74006) 3), (Num 3405 2, Num 11824 2)]"
    by code_simp
  from this parse_order_by_pass [OF this] show ?thesis by simp
qed

section \<open>Properties of the agents\<close>

lemma refinements_append [simp]: "refinements (t @ u) = refinements t @ refinements u"
  by (simp add: refinements_def)

lemma refinements_Nil [simp]: "refinements [] = []"
  by (simp add: refinements_def)

lemma refinements_Asked [simp]:
  "refinements (Asked r # t) = (if isRefineRequest r then r # refinements t else refinements t)"
  by (simp add: refinements_def)

lemma refinements_quiet: "filter isAsked evs = [] \<Longrightarrow> refinements evs = []"
  by (induction evs) (auto simp: refinements_def isAsked_def split: event.splits if_splits)

lemma norefine_returns [simp]: "norefine (returns x)"
  by (simp add: norefine_def returns_def)

lemma norefine_throws [simp]: "norefine (throws x)"
  by (simp add: norefine_def throws_def)

lemma norefine_call: "\<not> isRefineRequest r \<Longrightarrow> norefine (callPerplexity r)"
  by (simp add: norefine_def callPerplexity_def)

lemma norefine_andThen: "norefine m \<Longrightarrow> (\<And>a. norefine (f a)) \<Longrightarrow> norefine (andThen m f)"
  unfolding norefine_def andThen_def
proof (intro allI)
  fix e t
  assume m: "\<forall>e t. \<exists>evs. snd (m e t) = t @ evs \<and> refinements evs = []"
    and f: "\<And>a. \<forall>e t. \<exists>evs. snd (f a e t) = t @ evs \<and> refinements evs = []"
  obtain r t' where mt: "m e t = (r, t')" by (cases "m e t")
  from m [rule_format, of e t] mt obtain evs where evs: "t' = t @ evs" "refinements evs = []" by auto
  show "\<exists>evs. snd (case m e t of (Inl x, t') \<Rightarrow> (Inl x, t') | (Inr a, t') \<Rightarrow> f a e t') = t @ evs \<and> refinements evs = []"
  proof (cases r)
    case (Inl x)
    with mt evs show ?thesis by simp
  next
    case (Inr a)
    from f [of a, rule_format, of e t'] obtain evs' where "snd (f a e t') = t' @ evs'" "refinements evs' = []" by auto
    with mt evs Inr show ?thesis by simp
  qed
qed

lemma quiet_returns [simp]: "quiet (returns x)"
  by (simp add: quiet_def returns_def)

lemma quiet_throws [simp]: "quiet (throws x)"
  by (simp add: quiet_def throws_def)

lemma quiet_display [simp]: "quiet (displayOnMap r)"
  by (simp add: quiet_def displayOnMap_def isAsked_def)

lemma quiet_directions [simp]: "quiet (callMapboxDirections cs p)"
  by (simp add: quiet_def callMapboxDirections_def isAsked_def)

lemma quiet_andThen: "quiet m \<Longrightarrow> (\<And>a. quiet (f a)) \<Longrightarrow> quiet (andThen m f)"
  unfolding quiet_def andThen_def
proof (intro allI)
  fix e t
  assume m: "\<forall>e t. \<exists>r evs. m e t = (r, t @ evs) \<and> m e [] = (r, evs) \<and> filter isAsked evs = []"
    and f: "\<And>a. \<forall>e t. \<exists>r evs. f a e t = (r, t @ evs) \<and> f a e [] = (r, evs) \<and> filter isAsked evs = []"
  from m [rule_format, of e t] obtain r evs where
    mt: "m e t = (r, t @ evs)" "m e [] = (r, evs)" "filter isAsked evs = []" by blast
  show "\<exists>r evs. (case m e t of (Inl x, t') \<Rightarrow> (Inl x, t') | (Inr a, t') \<Rightarrow> f a e t') = (r, t @ evs) \<and>
          (case m e [] of (Inl x, t') \<Rightarrow> (Inl x, t') | (Inr a, t') \<Rightarrow> f a e t') = (r, evs) \<and> filter isAsked evs = []"
  proof (cases r)
    case (Inl x)
    with mt show ?thesis by simp
  next
    case (Inr a)
    from f [of a, rule_format, of e "t @ evs"] obtain r1 evs1 where
      f1: "f a e (t @ evs) = (r1, (t @ evs) @ evs1)" "f a e [] = (r1, evs1)" "filter isAsked evs1 = []" by blast
    from f [of a, rule_format, of e evs] obtain r2 evs2 where
      f2: "f a e evs = (r2, evs @ evs2)" "f a e [] = (r2, evs2)" by blast
    from f1 f2 have "r2 = r1" "evs2 = evs1" by simp_all
    with mt Inr f1 f2 show ?thesis by simp
  qed
qed

lemma unique_refine:
  "refinements a = [] \<Longrightarrow> refinements c = [] \<Longrightarrow> a @ Asked r0 # c = pre @ Asked req # rest \<Longrightarrow>
   isRefineRequest req \<Longrightarrow> pre = a \<and> req = r0 \<and> rest = c"
proof (induction a arbitrary: pre)
  case Nil
  then show ?case by (cases pre) auto
next
  case (Cons y a)
  show ?case
  proof (cases pre)
    case Nil
    with Cons.prems show ?thesis by (auto split: if_splits)
  next
    case (Cons z pre')
    with Cons.prems have "refinements a = []"
      by (cases y) (auto simp: refinements_def split: if_splits)
    with Cons Cons.prems Cons.IH [of pre'] show ?thesis by auto
  qed
qed

lemma refine_then_validate:
  assumes before: "norefine before"
    and stage: "\<And>ctx. refineStage ctx = (if needsOf ctx then callPerplexity (reqOf ctx) else returns (textOf ctx))"
    and isref: "\<And>ctx. needsOf ctx \<Longrightarrow> isRefineRequest (reqOf ctx)"
    and val: "\<And>ctx txt. quiet (validate ctx txt)"
    and handler: "\<And>x. handler x = returns (v x)"
    and tr: "tr = snd (tryCatch (andThen before (\<lambda>ctx. andThen (refineStage ctx) (validate ctx))) handler e [])"
  shows "length (refinements tr) \<le> 1"
    and "tr = pre @ Asked req # rest \<Longrightarrow> isRefineRequest req \<Longrightarrow>
         perplexity e (asked pre) req = Inr txt \<Longrightarrow> \<exists>ctx. rest = snd (validate ctx txt e [])"
proof -
  obtain r0 t3 where b: "before e [] = (r0, t3)" by (cases "before e []")
  from before [unfolded norefine_def, rule_format, of e "[]"] b
  have t3: "refinements t3 = []" by simp
  have shape: "(tr = t3) \<or>
     (\<exists>vs. tr = t3 @ vs \<and> filter isAsked vs = []) \<or>
     (\<exists>ctx. needsOf ctx \<and>
        ((\<exists>x. perplexity e (asked t3) (reqOf ctx) = Inl x \<and> tr = t3 @ [Asked (reqOf ctx)]) \<or>
         (\<exists>t0. perplexity e (asked t3) (reqOf ctx) = Inr t0 \<and>
               tr = t3 @ Asked (reqOf ctx) # snd (validate ctx t0 e []) \<and>
               filter isAsked (snd (validate ctx t0 e [])) = [])))"
  proof (cases r0)
    case (Inl x)
    with b tr handler show ?thesis
      by (simp add: tryCatch_def andThen_def returns_def)
  next
    case (Inr ctx)
    show ?thesis
    proof (cases "needsOf ctx")
      case False
      from val [of ctx "textOf ctx", unfolded quiet_def, rule_format, of e t3]
      obtain r evs where v: "validate ctx (textOf ctx) e t3 = (r, t3 @ evs)" "filter isAsked evs = []"
        by blast
      with b Inr False tr handler stage [of ctx] have "tr = t3 @ evs"
        by (cases r) (simp_all add: tryCatch_def andThen_def returns_def)
      with v show ?thesis by blast
    next
      case True
      show ?thesis
      proof (cases "perplexity e (asked t3) (reqOf ctx)")
        case (Inl x)
        with b Inr True tr handler stage [of ctx] have "tr = t3 @ [Asked (reqOf ctx)]"
          by (simp add: tryCatch_def andThen_def returns_def callPerplexity_def)
        with True Inl show ?thesis by blast
      next
        case (Inr t0)
        from val [of ctx t0, unfolded quiet_def, rule_format, of e "t3 @ [Asked (reqOf ctx)]"]
        obtain r evs where v: "validate ctx t0 e (t3 @ [Asked (reqOf ctx)]) = (r, (t3 @ [Asked (reqOf ctx)]) @ evs)"
          "validate ctx t0 e [] = (r, evs)" "filter isAsked evs = []"
          by blast
        with b \<open>r0 = Inr ctx\<close> True tr handler stage [of ctx] Inr
        have "tr = t3 @ Asked (reqOf ctx) # evs"
          by (cases r) (simp_all add: tryCatch_def andThen_def returns_def callPerplexity_def)
        with True Inr v show ?thesis by auto
      qed
    qed
  qed
  from shape t3 isref show "length (refinements tr) \<le> 1"
    by (auto simp: refinements_quiet)
  assume dec: "tr = pre @ Asked req # rest" and r: "isRefineRequest req"
    and ans: "perplexity e (asked pre) req = Inr txt"
  from shape show "\<exists>ctx. rest = snd (validate ctx txt e [])"
  proof (elim disjE exE conjE)
    assume "tr = t3"
    with dec r t3 show ?thesis by simp
  next
    fix vs assume "tr = t3 @ vs" "filter isAsked vs = []"
    with t3 have "refinements tr = []"
      by (simp add: refinements_quiet)
    with dec r show ?thesis by simp
  next
    fix ctx x assume n: "needsOf ctx" and "perplexity e (asked t3) (reqOf ctx) = Inl x"
      and "tr = t3 @ [Asked (reqOf ctx)]"
    with dec have "t3 @ Asked (reqOf ctx) # [] = pre @ Asked req # rest" by simp
    from unique_refine [OF t3 _ this r] have "pre = t3" "req = reqOf ctx" by simp_all
    with ans \<open>perplexity e (asked t3) (reqOf ctx) = Inl x\<close> show ?thesis by simp
  next
    fix ctx t0 assume n: "needsOf ctx" and a0: "perplexity e (asked t3) (reqOf ctx) = Inr t0"
      and "tr = t3 @ Asked (reqOf ctx) # snd (validate ctx t0 e [])"
      and q: "filter isAsked (snd (validate ctx t0 e [])) = []"
    with dec have "t3 @ Asked (reqOf ctx) # snd (validate ctx t0 e []) = pre @ Asked req # rest" by simp
    from unique_refine [OF t3 refinements_quiet [OF q] this r]
    have "pre = t3" "req = reqOf ctx" "rest = snd (validate ctx t0 e [])" by simp_all
    with ans a0 show ?thesis by auto
  qed
qed

lemma not_refine [simp]:
  "\<not> isRefineRequest (h @ [UserMsg (Prompt k Plan b args)])"
  "\<not> isRefineRequest (h @ [UserMsg (Prompt k Extraction b args)])"
  "\<not> isRefineRequest (h @ [UserMsg (Prompt k Reflect b args)])"
  "\<not> isRefineRequest [UserMsg (Prompt k Plan b args)]"
  "\<not> isRefineRequest [UserMsg (Prompt k Extraction b args)]"
  "\<not> isRefineRequest [UserMsg (Prompt k Reflect b args)]"
  "isRefineRequest (h @ [UserMsg (Prompt k Refine b args)])"
  by (simp_all add: isRefineRequest_def)

lemma norefine_pointBefore: "norefine (pointBeforeRefine u a q)"
  unfolding pointBeforeRefine_def pointPlan_def pointExtract_def pointReflect_def Let_def
  by (auto intro!: norefine_andThen norefine_call split: option.splits prod.splits)

lemma quiet_pointValidate: "quiet (pointValidate txt)"
  unfolding pointValidate_def
  by (auto intro!: quiet_andThen split: option.splits)

lemma norefine_lineBefore: "norefine (lineBeforeRefine u a q)"
  unfolding lineBeforeRefine_def linePlan_def lineExtract_def lineReflect_def Let_def
  by (auto intro!: norefine_andThen norefine_call split: option.splits prod.splits)

lemma quiet_lineValidate: "quiet (lineValidate u q txt)"
  unfolding lineValidate_def Let_def
  by (auto intro!: quiet_andThen split: option.splits)

lemma norefine_polygonBefore: "norefine (polygonBeforeRefine u a q)"
  unfolding polygonBeforeRefine_def polygonPlan_def polygonExtract_def polygonReflect_def Let_def
  by (auto intro!: norefine_andThen norefine_call split: option.splits prod.splits)

lemma quiet_polygonValidate: "quiet (polygonValidate m txt)"
  unfolding polygonValidate_def Let_def
  by (auto intro!: quiet_andThen split: option.splits)

lemma point_refine:
  "length (refinements (snd (extractCoordinates u a q e []))) \<le> 1"
  "snd (extractCoordinates u a q e []) = pre @ Asked req # rest \<Longrightarrow> isRefineRequest req \<Longrightarrow>
     perplexity e (asked pre) req = Inr txt \<Longrightarrow> rest = snd (pointValidate txt e [])"
proof -
  let ?needs = "\<lambda>(n :: bool, s :: bool, x :: string, h :: msg list). n"
  let ?req = "\<lambda>(n :: bool, s :: bool, x :: string, h :: msg list).
      h @ [UserMsg (Prompt PointAgent Refine s [x, u])]"
  let ?text = "\<lambda>(n :: bool, s :: bool, x :: string, h :: msg list). x"
  let ?stage = "\<lambda>(n, s, x, h). pointRefine n s u x h"
  let ?val = "\<lambda>(ctx :: bool \<times> bool \<times> string \<times> msg list). pointValidate"
  have tr: "snd (extractCoordinates u a q e []) =
      snd (tryCatch (andThen (pointBeforeRefine u a q) (\<lambda>ctx. andThen (?stage ctx) (?val ctx)))
             (\<lambda>error. returns Undefined) e [])"
    by (simp add: extractCoordinates_def extractCoordinatesBody_def case_prod_unfold)
  have stage: "\<And>ctx. ?stage ctx = (if ?needs ctx then callPerplexity (?req ctx) else returns (?text ctx))"
    by (auto simp: pointRefine_def)
  have isref: "\<And>ctx. ?needs ctx \<Longrightarrow> isRefineRequest (?req ctx)"
    by auto
  note L = refine_then_validate [where needsOf = ?needs and reqOf = ?req and textOf = ?text
      and refineStage = ?stage and validate = ?val and v = "\<lambda>x. Undefined",
      OF norefine_pointBefore stage isref quiet_pointValidate refl tr]
  from L(1) show "length (refinements (snd (extractCoordinates u a q e []))) \<le> 1" .
  assume "snd (extractCoordinates u a q e []) = pre @ Asked req # rest" "isRefineRequest req"
    "perplexity e (asked pre) req = Inr txt"
  with L(2) show "rest = snd (pointValidate txt e [])" by blast
qed

lemma line_refine:
  "length (refinements (snd (extractLineCoordinates u a q e []))) \<le> 1"
  "snd (extractLineCoordinates u a q e []) = pre @ Asked req # rest \<Longrightarrow> isRefineRequest req \<Longrightarrow>
     perplexity e (asked pre) req = Inr txt \<Longrightarrow> rest = snd (lineValidate u q txt e [])"
proof -
  let ?needs = "\<lambda>(n :: bool, m :: bool, s :: bool, x :: string, h :: msg list). n"
  let ?req = "\<lambda>(n :: bool, m :: bool, s :: bool, x :: string, h :: msg list).
      h @ [UserMsg (Prompt LineAgent Refine (if m then False else s) [x])]"
  let ?text = "\<lambda>(n :: bool, m :: bool, s :: bool, x :: string, h :: msg list). x"
  let ?stage = "\<lambda>(n, m, s, x, h). lineRefine n m s x h"
  let ?val = "\<lambda>(ctx :: bool \<times> bool \<times> bool \<times> string \<times> msg list). lineValidate u q"
  have tr: "snd (extractLineCoordinates u a q e []) =
      snd (tryCatch (andThen (lineBeforeRefine u a q) (\<lambda>ctx. andThen (?stage ctx) (?val ctx)))
             (\<lambda>error. returns Undefined) e [])"
    by (simp add: extractLineCoordinates_def extractLineCoordinatesBody_def case_prod_unfold)
  have stage: "\<And>ctx. ?stage ctx = (if ?needs ctx then callPerplexity (?req ctx) else returns (?text ctx))"
    by (auto simp: lineRefine_def)
  have isref: "\<And>ctx. ?needs ctx \<Longrightarrow> isRefineRequest (?req ctx)"
    by auto
  note L = refine_then_validate [where needsOf = ?needs and reqOf = ?req and textOf = ?text
      and refineStage = ?stage and validate = ?val and v = "\<lambda>x. Undefined",
      OF norefine_lineBefore stage isref quiet_lineValidate refl tr]
  from L(1) show "length (refinements (snd (extractLineCoordinates u a q e []))) \<le> 1" .
  assume "snd (extractLineCoordinates u a q e []) = pre @ Asked req # rest" "isRefineRequest req"
    "perplexity e (asked pre) req = Inr txt"
  with L(2) show "rest = snd (lineValidate u q txt e [])" by blast
qed

lemma polygon_refine:
  "length (refinements (snd (extractPolygon u a q e []))) \<le> 1"
  "snd (extractPolygon u a q e []) = pre @ Asked req # rest \<Longrightarrow> isRefineRequest req \<Longrightarrow>
     perplexity e (asked pre) req = Inr txt \<Longrightarrow> \<exists>m. rest = snd (polygonValidate m txt e [])"
proof -
  let ?needs = "\<lambda>(n :: bool, m :: bool, x :: string, h :: msg list). n"
  let ?req = "\<lambda>(n :: bool, m :: bool, x :: string, h :: msg list).
      h @ [UserMsg (Prompt PolygonAgent Refine m [x])]"
  let ?text = "\<lambda>(n :: bool, m :: bool, x :: string, h :: msg list). x"
  let ?stage = "\<lambda>(n, m, x, h). polygonRefine n m x h"
  let ?val = "\<lambda>(n :: bool, m :: bool, x :: string, h :: msg list). polygonValidate m"
  have tr: "snd (extractPolygon u a q e []) =
      snd (tryCatch (andThen (polygonBeforeRefine u a q) (\<lambda>ctx. andThen (?stage ctx) (?val ctx)))
             (\<lambda>error. returns (FailError (message error))) e [])"
    by (simp add: extractPolygon_def extractPolygonBody_def case_prod_unfold)
  have stage: "\<And>ctx. ?stage ctx = (if ?needs ctx then callPerplexity (?req ctx) else returns (?text ctx))"
    by (auto simp: polygonRefine_def)
  have isref: "\<And>ctx. ?needs ctx \<Longrightarrow> isRefineRequest (?req ctx)"
    by auto
  have val: "\<And>ctx txt. quiet (?val ctx txt)"
    by (auto simp: quiet_polygonValidate)
  note L = refine_then_validate [where needsOf = ?needs and reqOf = ?req and textOf = ?text
      and refineStage = ?stage and validate = ?val and v = "\<lambda>x. FailError (message x)",
      OF norefine_polygonBefore stage isref val refl tr]
  from L(1) show "length (refinements (snd (extractPolygon u a q e []))) \<le> 1" .
  assume "snd (extractPolygon u a q e []) = pre @ Asked req # rest" "isRefineRequest req"
    "perplexity e (asked pre) req = Inr txt"
  with L(2) obtain ctx where "rest = snd (?val ctx txt e [])" by blast
  then show "\<exists>m. rest = snd (polygonValidate m txt e [])"
    by (auto simp: case_prod_unfold)
qed

text \<open>
  C4. In every run of the point, line or polygon agent the trace holds at most one
  refinement request; and when it holds one that the collaborator answered with a text
  \<open>txt\<close>, what follows it in the trace is the VALIDATE step run on \<open>txt\<close>,
  whatever \<open>txt\<close> is: no further completion request, no second refinement.
\<close>

theorem refine_at_most_once:
  "length (refinements (snd (extractCoordinates u a q e []))) \<le> 1 \<and>
   length (refinements (snd (extractLineCoordinates u a q e []))) \<le> 1 \<and>
   length (refinements (snd (extractPolygon u a q e []))) \<le> 1 \<and>
   (snd (extractCoordinates u a q e []) = pre @ Asked req # rest \<and> isRefineRequest req \<and>
      perplexity e (asked pre) req = Inr txt \<longrightarrow> rest = snd (pointValidate txt e [])) \<and>
   (snd (extractLineCoordinates u a q e []) = pre @ Asked req # rest \<and> isRefineRequest req \<and>
      perplexity e (asked pre) req = Inr txt \<longrightarrow> rest = snd (lineValidate u q txt e [])) \<and>
   (snd (extractPolygon u a q e []) = pre @ Asked req # rest \<and> isRefineRequest req \<and>
      perplexity e (asked pre) req = Inr txt \<longrightarrow> (\<exists>m. rest = snd (polygonValidate m txt e [])))"
proof (intro conjI impI)
  show "length (refinements (snd (extractCoordinates u a q e []))) \<le> 1"
    by (rule point_refine(1))
  show "length (refinements (snd (extractLineCoordinates u a q e []))) \<le> 1"
    by (rule line_refine(1))
  show "length (refinements (snd (extractPolygon u a q e []))) \<le> 1"
    by (rule polygon_refine(1))
next
  assume "snd (extractCoordinates u a q e []) = pre @ Asked req # rest \<and> isRefineRequest req \<and>
      perplexity e (asked pre) req = Inr txt"
  then show "rest = snd (pointValidate txt e [])"
    by (elim conjE) (rule point_refine(2))
next
  assume "snd (extractLineCoordinates u a q e []) = pre @ Asked req # rest \<and> isRefineRequest req \<and>
      perplexity e (asked pre) req = Inr txt"
  then show "rest = snd (lineValidate u q txt e [])"
    by (elim conjE) (rule line_refine(2))
next
  assume "snd (extractPolygon u a q e []) = pre @ Asked req # rest \<and> isRefineRequest req \<and>
      perplexity e (asked pre) req = Inr txt"
  then show "\<exists>m. rest = snd (polygonValidate m txt e [])"
    by (elim conjE) (rule polygon_refine(2))
qed


theorem refine_at_most_once_witness:
  "snd (pointValidate ''40.7,-74.0'' shortAnswerEnv []) = [Shown (Markers [(Num 407 1, Num (- 74) 0)])] \<and>
   snd (lineValidate ''route from A to B'' (Some \<lparr>qtype = ''line'', subtype = ''route-single''\<rparr>)
          ''40.7,-74.0'' shortAnswerEnv []) = [Shown (Markers [(Num 407 1, Num (- 74) 0)])] \<and>
   (\<exists>m. snd (polygonValidate m ''40.7,-74.0'' shortAnswerEnv []) = [])"
proof -
  have p1: "snd (extractCoordinates ''where is Dubai'' [] (Some \<lparr>qtype = ''point'', subtype = ''single''\<rparr>)
              shortAnswerEnv []) =
      [Asked [UserMsg (Prompt PointAgent Extraction False [''where is Dubai'', []])],
       Asked [UserMsg (Prompt PointAgent Extraction False [''where is Dubai'', []]),
              AssistantMsg ''40.7,-74.0'',
              UserMsg (Prompt PointAgent Reflect True [''40.7,-74.0'', ''where is Dubai''])]] @
      Asked [UserMsg (Prompt PointAgent Extraction False [''where is Dubai'', []]),
             AssistantMsg ''40.7,-74.0'',
             UserMsg (Prompt PointAgent Refine True [''40.7,-74.0'', ''where is Dubai''])] #
      [Shown (Markers [(Num 407 1, Num (- 74) 0)])]"
    by code_simp
  have p2: "isRefineRequest [UserMsg (Prompt PointAgent Extraction False [''where is Dubai'', []]),
             AssistantMsg ''40.7,-74.0'',
             UserMsg (Prompt PointAgent Refine True [''40.7,-74.0'', ''where is Dubai''])]"
    by code_simp
  have p3: "perplexity shortAnswerEnv
      (asked [Asked [UserMsg (Prompt PointAgent Extraction False [''where is Dubai'', []])],
       Asked [UserMsg (Prompt PointAgent Extraction False [''where is Dubai'', []]),
              AssistantMsg ''40.7,-74.0'',
              UserMsg (Prompt PointAgent Reflect True [''40.7,-74.0'', ''where is Dubai''])]])
      [UserMsg (Prompt PointAgent Extraction False [''where is Dubai'', []]),
             AssistantMsg ''40.7,-74.0'',
             UserMsg (Prompt PointAgent Refine True [''40.7,-74.0'', ''where is Dubai''])] = Inr ''40.7,-74.0''"
    by code_simp
  have l1: "snd (extractLineCoordinates ''route from A to B'' []
               (Some \<lparr>qtype = ''line'', subtype = ''route-single''\<rparr>) shortAnswerEnv []) =
      [Asked [UserMsg (Prompt LineAgent Extraction True [''route from A to B'', []])]] @
      Asked [UserMsg (Prompt LineAgent Extraction True [''route from A to B'', []]),
             AssistantMsg ''40.7,-74.0'',
             UserMsg (Prompt LineAgent Refine True [''40.7,-74.0''])] #
      [Shown (Markers [(Num 407 1, Num (- 74) 0)])]"
    by code_simp
  have l2: "isRefineRequest [UserMsg (Prompt LineAgent Extraction True [''route from A to B'', []]),
             AssistantMsg ''40.7,-74.0'',
             UserMsg (Prompt LineAgent Refine True [''40.7,-74.0''])]"
    by code_simp
  have l3: "perplexity shortAnswerEnv
      (asked [Asked [UserMsg (Prompt LineAgent Extraction True [''route from A to B'', []])]])
      [UserMsg (Prompt LineAgent Extraction True [''route from A to B'', []]),
             AssistantMsg ''40.7,-74.0'',
             UserMsg (Prompt LineAgent Refine True [''40.7,-74.0''])] = Inr ''40.7,-74.0''"
    by code_simp
  have g1: "snd (extractPolygon ''draw polygon around Delhi'' []
               (Some \<lparr>qtype = ''polygon'', subtype = ''single''\<rparr>) shortAnswerEnv []) =
      [Asked [UserMsg (Prompt PolygonAgent Extraction False [''draw polygon around Delhi'', []])],
       Asked [UserMsg (Prompt PolygonAgent Extraction False [''draw polygon around Delhi'', []]),
              AssistantMsg ''40.7,-74.0'',
              UserMsg (Prompt PolygonAgent Reflect False
                 [''40.7,-74.0'', ''1'', ''draw polygon around Delhi''])]] @
      Asked [UserMsg (Prompt PolygonAgent Extraction False [''draw polygon around Delhi'', []]),
             AssistantMsg ''40.7,-74.0'',
             UserMsg (Prompt PolygonAgent Refine False [''40.7,-74.0''])] #
      []"
    by code_simp
  have g2: "isRefineRequest [UserMsg (Prompt PolygonAgent Extraction False [''draw polygon around Delhi'', []]),
             AssistantMsg ''40.7,-74.0'',
             UserMsg (Prompt PolygonAgent Refine False [''40.7,-74.0''])]"
    by code_simp
  have g3: "perplexity shortAnswerEnv
      (asked [Asked [UserMsg (Prompt PolygonAgent Extraction False [''draw polygon around Delhi'', []])],
       Asked [UserMsg (Prompt PolygonAgent Extraction False [''draw polygon around Delhi'', []]),
              AssistantMsg ''40.7,-74.0'',
              UserMsg (Prompt PolygonAgent Reflect False
                 [''40.7,-74.0'', ''1'', ''draw polygon around Delhi''])]])
      [UserMsg (Prompt PolygonAgent Extraction False [''draw polygon around Delhi'', []]),
             AssistantMsg ''40.7,-74.0'',
             UserMsg (Prompt PolygonAgent Refine False [''40.7,-74.0''])] = Inr ''40.7,-74.0''"
    by code_simp
  note T = refine_at_most_once
  from T [THEN conjunct2, THEN conjunct2, THEN conjunct2, THEN conjunct1, rule_format, OF conjI [OF p1 conjI [OF p2 p3]]]
  have a: "snd (pointValidate ''40.7,-74.0'' shortAnswerEnv []) = [Shown (Markers [(Num 407 1, Num (- 74) 0)])]"
    by simp
  from T [THEN conjunct2, THEN conjunct2, THEN conjunct2, THEN conjunct2, THEN conjunct1, rule_format,
      OF conjI [OF l1 conjI [OF l2 l3]]]
  have b: "snd (lineValidate ''route from A to B'' (Some \<lparr>qtype = ''line'', subtype = ''route-single''\<rparr>)
          ''40.7,-74.0'' shortAnswerEnv []) = [Shown (Markers [(Num 407 1, Num (- 74) 0)])]"
    by simp
  from T [THEN conjunct2, THEN conjunct2, THEN conjunct2, THEN conjunct2, THEN conjunct2, rule_format,
      OF conjI [OF g1 conjI [OF g2 g3]]]
  have c: "\<exists>m. snd (polygonValidate m ''40.7,-74.0'' shortAnswerEnv []) = []"
    by (elim exE) (rule exI, erule sym)
  from a b c show ?thesis by blast
qed


section \<open>Properties of the agent boundary\<close>

text \<open>
  C1, as stated, fails: when its completion request fails, the point agent catches the
  error and returns \<open>undefined\<close>, not an object \<open>{success: false, error}\<close>.
\<close>

theorem point_agent_returns_undefined_on_failure:
  "fst (extractCoordinatesBody ''where is Dubai'' [] None offlineEnv []) = Inl (Error ''Failed to fetch'') \<and>
   fst (extractCoordinates ''where is Dubai'' [] None offlineEnv []) = Inr Undefined"
  by code_simp

text \<open>
  C1, amended: no agent lets an exception reach its caller, from any step and in any
  environment. When a step throws, the polygon and the isochrone agent return
  \<open>{success: false, error}\<close> with the message of the error, the elevation agent
  returns \<open>{success: false, message}\<close>, and the point, line and buffer agents, which
  return no result object on any path, return \<open>undefined\<close>.
\<close>

theorem agents_catch_every_exception:
  "(\<exists>r. fst (extractCoordinates u a q e t) = Inr r) \<and>
   (\<exists>r. fst (extractLineCoordinates u a q e t) = Inr r) \<and>
   (\<exists>r. fst (extractBuffer u a q e t) = Inr r) \<and>
   (\<exists>r. fst (extractPolygon u a q e t) = Inr r) \<and>
   (\<exists>r. fst (extractIsochrone u a q e t) = Inr r) \<and>
   (\<exists>r. fst (extractElevationProfile u a q e t) = Inr r) \<and>
   (fst (extractCoordinatesBody u a q e t) = Inl x \<longrightarrow>
      fst (extractCoordinates u a q e t) = Inr Undefined) \<and>
   (fst (extractLineCoordinatesBody u a q e t) = Inl x \<longrightarrow>
      fst (extractLineCoordinates u a q e t) = Inr Undefined) \<and>
   (fst (extractBufferBody u a q e t) = Inl x \<longrightarrow>
      fst (extractBuffer u a q e t) = Inr Undefined) \<and>
   (fst (extractPolygonBody u a q e t) = Inl x \<longrightarrow>
      fst (extractPolygon u a q e t) = Inr (FailError (message x))) \<and>
   (fst (extractIsochroneBody u a q e t) = Inl x \<longrightarrow>
      fst (extractIsochrone u a q e t) = Inr (FailError (message x))) \<and>
   (fst (extractElevationProfileBody u a q e t) = Inl x \<longrightarrow>
      fst (extractElevationProfile u a q e t) = Inr (FailMessage (message x)))"
proof -
  have caught: "\<exists>r. fst (tryCatch body (\<lambda>error. returns (v error)) e t) = Inr r"
    for body :: "agentResult io" and v
    by (cases "body e t"; cases "fst (body e t)") (auto simp: tryCatch_def returns_def)
  have thrown: "fst (body e t) = Inl x \<Longrightarrow> fst (tryCatch body (\<lambda>error. returns (v error)) e t) = Inr (v x)"
    for body :: "agentResult io" and v
    by (cases "body e t") (auto simp: tryCatch_def returns_def)
  show ?thesis
    unfolding extractCoordinates_def extractLineCoordinates_def extractBuffer_def extractPolygon_def
      extractIsochrone_def extractElevationProfile_def
    by (intro conjI impI caught thrown)
qed

theorem agents_catch_every_exception_witness:
  "fst (extractCoordinates ''where is Dubai'' [] None offlineEnv []) = Inr Undefined \<and>
   fst (extractLineCoordinates ''route from A to B'' [] None offlineEnv []) = Inr Undefined \<and>
   fst (extractBuffer ''5km buffer around Paris'' [] None offlineEnv []) = Inr Undefined \<and>
   fst (extractPolygon ''draw polygon around Delhi'' [] None offlineEnv []) = Inr (FailError ''Failed to fetch'') \<and>
   fst (extractIsochrone ''30 min drive zone'' [] None offlineEnv []) = Inr (FailError ''Failed to fetch'') \<and>
   fst (extractElevationProfile ''elevation profile'' ''40.7,-74.0 | 34.05,-118.24'' None offlineEnv [])
     = Inr (FailMessage ''Style is not done loading'')"
proof -
  have b1: "fst (extractCoordinatesBody ''where is Dubai'' [] None offlineEnv []) = Inl (Error ''Failed to fetch'')"
    by code_simp
  have b2: "fst (extractLineCoordinatesBody ''route from A to B'' [] None offlineEnv []) = Inl (Error ''Failed to fetch'')"
    by code_simp
  have b3: "fst (extractBufferBody ''5km buffer around Paris'' [] None offlineEnv []) = Inl (Error ''Failed to fetch'')"
    by (simp add: extractBufferBody_def bufferCenterResponse_def andThen_def getSelectedFeature_def
        offlineEnv_def parseCoordinates_def callPerplexity_def)
  have b4: "fst (extractPolygonBody ''draw polygon around Delhi'' [] None offlineEnv []) = Inl (Error ''Failed to fetch'')"
    by code_simp
  have b5: "fst (extractIsochroneBody ''30 min drive zone'' [] None offlineEnv []) = Inl (Error ''Failed to fetch'')"
    by code_simp
  have b6: "fst (extractElevationProfileBody ''elevation profile'' ''40.7,-74.0 | 34.05,-118.24'' None offlineEnv [])
      = Inl (Error ''Style is not done loading'')"
    by code_simp
  note T = agents_catch_every_exception
  from T [THEN conjunct2, THEN conjunct2, THEN conjunct2, THEN conjunct2, THEN conjunct2, THEN conjunct2,
      THEN conjunct1, rule_format, OF b1]
    T [THEN conjunct2, THEN conjunct2, THEN conjunct2, THEN conjunct2, THEN conjunct2, THEN conjunct2,
      THEN conjunct2, THEN conjunct1, rule_format, OF b2]
    T [THEN conjunct2, THEN conjunct2, THEN conjunct2, THEN conjunct2, THEN conjunct2, THEN conjunct2,
      THEN conjunct2, THEN conjunct2, THEN conjunct1, rule_format, OF b3]
    T [THEN conjunct2, THEN conjunct2, THEN conjunct2, THEN conjunct2, THEN conjunct2, THEN conjunct2,
      THEN conjunct2, THEN conjunct2, THEN conjunct2, THEN conjunct1, rule_format, OF b4]
    T [THEN conjunct2, THEN conjunct2, THEN conjunct2, THEN conjunct2, THEN conjunct2, THEN conjunct2,
      THEN conjunct2, THEN conjunct2, THEN conjunct2, THEN conjunct2, THEN conjunct1, rule_format, OF b5]
    T [THEN conjunct2, THEN conjunct2, THEN conjunct2, THEN conjunct2, THEN conjunct2, THEN conjunct2,
      THEN conjunct2, THEN conjunct2, THEN conjunct2, THEN conjunct2, THEN conjunct2, rule_format, OF b6]
  show ?thesis by (simp add: message_def)
qed

text \<open>
  The isochrone agent asks for time contours, and for no distance contours, whenever
  the combined text yields a time value.
\<close>

lemma isochrone_time_over_distance:
  "extractTimeValues (toLowerCase (u @ '' '' @ a)) \<noteq> [] \<Longrightarrow>
   snd (isochroneContours u a c e t) =
     t @ [IsochroneAsked c \<lparr> profile = detectTravelMode u,
            contoursMinutes = Some (extractTimeValues (toLowerCase (u @ '' '' @ a))),
            contoursMeters = None \<rparr>]"
  by (auto simp: isochroneContours_def Let_def andThen_def callMapboxIsochrone_def throws_def returns_def
      split: option.splits)

end
